theory Spec2Isabelle
  imports Main "HOL-Library.Word" "HOL-Library.Sublist"
begin

unbundle bit_operations_syntax

section \<open>The QSPI execute-in-place example (main.c)\<close>

text \<open>
  The program is one translation unit, \<^verbatim>\<open>main.c\<close>: three helpers (\<^verbatim>\<open>check_status\<close>,
  \<^verbatim>\<open>print_array\<close>, \<^verbatim>\<open>check_address\<close>), the routine placed in external memory and
  \<^verbatim>\<open>main\<close>. Everything else it calls is the vendor's board-support package, hardware
  abstraction layer and serial-flash driver, which are not part of the source tree; the
  model takes them as a parameter (a record of operations on an opaque hardware state).

  \<^item> \<^verbatim>\<open>uint32_t\<close>, \<^verbatim>\<open>cy_rslt_t\<close> and \<^verbatim>\<open>size_t\<close> (a 32-bit Arm target) are \<open>32 word\<close>,
    \<^verbatim>\<open>uint8_t\<close> is \<open>8 word\<close>.
  \<^item> The console is the sequence of characters handed to \<^verbatim>\<open>printf\<close> so far.
  \<^item> Two loops of the program have no exit (\<^verbatim>\<open>while(true);\<close> and \<^verbatim>\<open>for(;;)\<close>). They are
    run on a clock: a function that contains one takes the number of loop iterations that
    may still be executed and answers either \<open>Returned s\<close> (it came back
    to its caller in state \<open>s\<close>) or \<open>Running s\<close> (the clock ran out while it was still
    executing, in state \<open>s\<close>). "Never returns" is then a theorem: \<open>Running\<close> for every
    clock value.
\<close>

subsection \<open>Macros of main.c\<close>

definition PACKET_SIZE :: "32 word" where
  "PACKET_SIZE = 64"

definition NUM_BYTES_PER_LINE :: "32 word" where
  "NUM_BYTES_PER_LINE = 16"

definition LED_TOGGLE_DELAY_MSEC :: "32 word" where
  "LED_TOGGLE_DELAY_MSEC = 1000"

definition CY_RSLT_SUCCESS :: "32 word" where
  "CY_RSLT_SUCCESS = 0"

subsection \<open>printf conversions\<close>

text \<open>
  The conversions the program uses: \<^verbatim>\<open>%s\<close>, \<^verbatim>\<open>%u\<close> and \<^verbatim>\<open>%lu\<close> (decimal),
  \<^verbatim>\<open>%lx\<close> (lower-case hexadecimal), \<^verbatim>\<open>%02X\<close> and \<^verbatim>\<open>%08lX\<close> (upper-case hexadecimal,
  padded with zeros to a minimum width).
\<close>

function digits_of :: "nat \<Rightarrow> nat \<Rightarrow> nat list" where
  "digits_of b n = (if b < 2 \<or> n < b then [n] else digits_of b (n div b) @ [n mod b])"
  by pat_completeness auto
termination
  by (relation "measure (\<lambda>(b, n). n)") auto

declare digits_of.simps [simp del]

definition digit_char :: "string \<Rightarrow> nat \<Rightarrow> char" where
  "digit_char alphabet d = alphabet ! d"

definition zero_pad :: "nat \<Rightarrow> string \<Rightarrow> string" where
  "zero_pad width s = replicate (width - length s) (CHR ''0'') @ s"

definition fmt_u :: "32 word \<Rightarrow> string" where
  "fmt_u v = map (digit_char ''0123456789'') (digits_of 10 (unat v))"

definition fmt_lx :: "32 word \<Rightarrow> string" where
  "fmt_lx v = map (digit_char ''0123456789abcdef'') (digits_of 16 (unat v))"

definition fmt_08lX :: "32 word \<Rightarrow> string" where
  "fmt_08lX v = zero_pad 8 (map (digit_char ''0123456789ABCDEF'') (digits_of 16 (unat v)))"

definition fmt_02X :: "8 word \<Rightarrow> string" where
  "fmt_02X v = zero_pad 2 (map (digit_char ''0123456789ABCDEF'') (digits_of 16 (unat v)))"

subsection \<open>The board as the program sees it\<close>

datatype led_state = CYBSP_LED_STATE_ON | CYBSP_LED_STATE_OFF

text \<open>
  A log of the calls the program makes into the vendor libraries, in program order, each
  with the arguments passed and the result handed back: a status for the calls that
  return one; for a write the bytes passed; for a read the destination array as the call
  left it. It is ghost state: the program never reads it; the theorems do.
\<close>

datatype call =
    Cybsp_init "32 word"
  | Enable_irq
  | Retarget_io_init
  | Gpio_init led_state
  | Gpio_write led_state
  | Gpio_toggle
  | Delay_ms "32 word"
  | Qspi_init "32 word"
  | Qspi_get_erase_size "32 word" "32 word"
  | Qspi_get_size "32 word"
  | Qspi_erase "32 word" "32 word" "32 word"
  | Qspi_read "32 word" "32 word" "8 word list" "32 word"
  | Qspi_write "32 word" "32 word" "8 word list" "32 word"
  | Qspi_enable_xip bool

record 'hw state =
  hw :: 'hw
  console :: string
  led :: led_state
  calls :: "call list"

text \<open>
  What main.c is linked against and built with. The \<open>drv_\<close> fields are the vendor
  operations on the hardware state \<open>'hw\<close> (flash device, controller, driver variables):
  each returns a status (zero is success) and the new hardware state. A read also returns
  the bytes it stored at the destination pointer. \<open>baseAddress\<close> is
  \<^verbatim>\<open>smifMemConfigs[MEM_SLOT_NUM]->baseAddress\<close>; the two addresses are where the linker
  put \<^verbatim>\<open>hi_word\<close> and \<^verbatim>\<open>print_from_external_memory\<close>; \<open>assert_active\<close> says whether
  \<^verbatim>\<open>CY_ASSERT\<close> is compiled in (a build without \<^verbatim>\<open>NDEBUG\<close>); \<open>stack\<close> is the
  indeterminate content of main's stack frame on entry.
\<close>

record 'hw platform =
  drv_bsp_init :: "'hw \<Rightarrow> 32 word \<times> 'hw"
  drv_init :: "'hw \<Rightarrow> 32 word \<times> 'hw"
  drv_get_erase_size :: "32 word \<Rightarrow> 'hw \<Rightarrow> 32 word"
  drv_get_size :: "'hw \<Rightarrow> 32 word"
  drv_erase :: "32 word \<Rightarrow> 32 word \<Rightarrow> 'hw \<Rightarrow> 32 word \<times> 'hw"
  drv_read :: "32 word \<Rightarrow> 32 word \<Rightarrow> 'hw \<Rightarrow> 32 word \<times> 8 word list \<times> 'hw"
  drv_write :: "32 word \<Rightarrow> 32 word \<Rightarrow> 8 word list \<Rightarrow> 'hw \<Rightarrow> 32 word \<times> 'hw"
  drv_enable_xip :: "bool \<Rightarrow> 'hw \<Rightarrow> 'hw"
  baseAddress :: "32 word"
  hi_word_address :: "32 word"
  print_from_external_memory_address :: "32 word"
  assert_active :: bool
  stack :: "nat \<Rightarrow> 8 word"

subsection \<open>Running on a clock\<close>

datatype 's exec = Running 's | Returned 's

fun final :: "'s exec \<Rightarrow> 's" where
  "final (Running s) = s"
| "final (Returned s) = s"

text \<open>Sequencing: what follows a call runs only if the call returns.\<close>

fun and_then :: "'s exec \<Rightarrow> ('s \<Rightarrow> 's exec) \<Rightarrow> 's exec" where
  "and_then (Running s) k = Running s"
| "and_then (Returned s) k = k s"

text \<open>\<^verbatim>\<open>while(true);\<close>: the condition always holds and the body is empty.\<close>

fun while_true :: "nat \<Rightarrow> 's \<Rightarrow> 's exec" where
  "while_true 0 s = Running s"
| "while_true (Suc fuel) s = while_true fuel s"

subsection \<open>Library calls\<close>

definition printf :: "string \<Rightarrow> 'hw state \<Rightarrow> 'hw state" where
  "printf text s = s\<lparr>console := console s @ text\<rparr>"

definition logged :: "call \<Rightarrow> 'hw state \<Rightarrow> 'hw state" where
  "logged c s = s\<lparr>calls := calls s @ [c]\<rparr>"

definition cyhal_gpio_init :: "led_state \<Rightarrow> 'hw state \<Rightarrow> 'hw state" where
  "cyhal_gpio_init init_val s = logged (Gpio_init init_val) (s\<lparr>led := init_val\<rparr>)"

definition cyhal_gpio_write :: "led_state \<Rightarrow> 'hw state \<Rightarrow> 'hw state" where
  "cyhal_gpio_write val s = logged (Gpio_write val) (s\<lparr>led := val\<rparr>)"

definition cyhal_gpio_toggle :: "'hw state \<Rightarrow> 'hw state" where
  "cyhal_gpio_toggle s =
     logged Gpio_toggle
       (s\<lparr>led := (case led s of CYBSP_LED_STATE_ON \<Rightarrow> CYBSP_LED_STATE_OFF
                             | CYBSP_LED_STATE_OFF \<Rightarrow> CYBSP_LED_STATE_ON)\<rparr>)"

definition cyhal_system_delay_ms :: "32 word \<Rightarrow> 'hw state \<Rightarrow> 'hw state" where
  "cyhal_system_delay_ms ms s = logged (Delay_ms ms) s"

definition enable_irq :: "'hw state \<Rightarrow> 'hw state" where
  "enable_irq s = logged Enable_irq s"

definition cy_retarget_io_init :: "'hw state \<Rightarrow> 'hw state" where
  "cy_retarget_io_init s = logged Retarget_io_init s"

definition cybsp_init :: "'hw platform \<Rightarrow> 'hw state \<Rightarrow> 32 word \<times> 'hw state" where
  "cybsp_init p s =
     (let (status, h) = drv_bsp_init p (hw s)
      in (status, logged (Cybsp_init status) (s\<lparr>hw := h\<rparr>)))"

text \<open>
  \<^verbatim>\<open>CY_ASSERT\<close> is a macro of the vendor's peripheral library: compiled out under
  \<^verbatim>\<open>NDEBUG\<close>, otherwise it halts the core when the condition is false.
\<close>

definition CY_ASSERT :: "nat \<Rightarrow> 'hw platform \<Rightarrow> bool \<Rightarrow> 'hw state \<Rightarrow> 'hw state exec" where
  "CY_ASSERT fuel p cond s =
     (if assert_active p \<and> \<not> cond then while_true fuel s else Returned s)"

definition cy_serial_flash_qspi_init :: "'hw platform \<Rightarrow> 'hw state \<Rightarrow> 32 word \<times> 'hw state" where
  "cy_serial_flash_qspi_init p s =
     (let (status, h) = drv_init p (hw s)
      in (status, logged (Qspi_init status) (s\<lparr>hw := h\<rparr>)))"

definition cy_serial_flash_qspi_get_erase_size ::
    "'hw platform \<Rightarrow> 32 word \<Rightarrow> 'hw state \<Rightarrow> 32 word \<times> 'hw state" where
  "cy_serial_flash_qspi_get_erase_size p addr s =
     (let sz = drv_get_erase_size p addr (hw s)
      in (sz, logged (Qspi_get_erase_size addr sz) s))"

definition cy_serial_flash_qspi_get_size :: "'hw platform \<Rightarrow> 'hw state \<Rightarrow> 32 word \<times> 'hw state" where
  "cy_serial_flash_qspi_get_size p s =
     (let sz = drv_get_size p (hw s)
      in (sz, logged (Qspi_get_size sz) s))"

definition cy_serial_flash_qspi_erase ::
    "'hw platform \<Rightarrow> 32 word \<Rightarrow> 32 word \<Rightarrow> 'hw state \<Rightarrow> 32 word \<times> 'hw state" where
  "cy_serial_flash_qspi_erase p addr len s =
     (let (status, h) = drv_erase p addr len (hw s)
      in (status, logged (Qspi_erase addr len status) (s\<lparr>hw := h\<rparr>)))"

text \<open>
  The driver stores the bytes it read through the destination pointer; the array keeps
  its length, and bytes the driver did not deliver keep their old value.
\<close>

definition stored :: "8 word list \<Rightarrow> 8 word list \<Rightarrow> 8 word list" where
  "stored bytes buf = take (length buf) (bytes @ drop (length bytes) buf)"

definition cy_serial_flash_qspi_read ::
    "'hw platform \<Rightarrow> 32 word \<Rightarrow> 32 word \<Rightarrow> 8 word list \<Rightarrow> 'hw state
       \<Rightarrow> 32 word \<times> 8 word list \<times> 'hw state" where
  "cy_serial_flash_qspi_read p addr len buf s =
     (let (status, bytes, h) = drv_read p addr len (hw s);
          buf = stored (take (unat len) bytes) buf
      in (status, buf, logged (Qspi_read addr len buf status) (s\<lparr>hw := h\<rparr>)))"

definition cy_serial_flash_qspi_write ::
    "'hw platform \<Rightarrow> 32 word \<Rightarrow> 32 word \<Rightarrow> 8 word list \<Rightarrow> 'hw state \<Rightarrow> 32 word \<times> 'hw state" where
  "cy_serial_flash_qspi_write p addr len buf s =
     (let bytes = take (unat len) buf;
          (status, h) = drv_write p addr len bytes (hw s)
      in (status, logged (Qspi_write addr len bytes status) (s\<lparr>hw := h\<rparr>)))"

definition cy_serial_flash_qspi_enable_xip :: "'hw platform \<Rightarrow> bool \<Rightarrow> 'hw state \<Rightarrow> 'hw state" where
  "cy_serial_flash_qspi_enable_xip p enable s =
     logged (Qspi_enable_xip enable) (s\<lparr>hw := drv_enable_xip p enable (hw s)\<rparr>)"

text \<open>
  \<^verbatim>\<open>memcmp\<close> over two arrays: zero when the first \<open>n\<close> bytes agree, otherwise the
  difference of the first two bytes that differ, read as unsigned (the C standard fixes
  the sign of the result; the magnitude is the usual library's).
\<close>

fun memcmp_bytes :: "8 word list \<Rightarrow> 8 word list \<Rightarrow> int" where
  "memcmp_bytes (a # as) (b # bs) = (if a \<noteq> b then uint a - uint b else memcmp_bytes as bs)"
| "memcmp_bytes _ _ = 0"

definition memcmp :: "8 word list \<Rightarrow> 8 word list \<Rightarrow> 32 word \<Rightarrow> int" where
  "memcmp s1 s2 n = memcmp_bytes (take (unat n) s1) (take (unat n) s2)"

subsection \<open>The functions of main.c\<close>

definition rule_line :: string where
  "rule_line = ''\<newline>================================================================================\<newline>''"

definition print_from_external_memory :: "string \<Rightarrow> 'hw state \<Rightarrow> 'hw state" where
  "print_from_external_memory buf s = printf buf s"

definition check_status :: "nat \<Rightarrow> string \<Rightarrow> 32 word \<Rightarrow> 'hw state \<Rightarrow> 'hw state exec" where
  "check_status fuel message status s =
     (if 0 \<noteq> status then
        let s = printf rule_line s;
            s = printf (''\<newline>FAIL: '' @ message @ ''\<newline>'') s;
            s = printf (''Error Code: 0x'' @ fmt_08lX status @ ''\<newline>'') s;
            s = printf rule_line s;
            s = cyhal_gpio_write CYBSP_LED_STATE_ON s
        in while_true fuel s
      else Returned s)"

function print_array_loop :: "8 word list \<Rightarrow> 32 word \<Rightarrow> 32 word \<Rightarrow> 'hw state \<Rightarrow> 'hw state" where
  "print_array_loop buf sz index s =
     (if index < sz then
        let s = printf (''0x'' @ fmt_02X (buf ! unat index) @ '' '') s;
            s = (if 0 = (index + 1) mod NUM_BYTES_PER_LINE then printf ''\<newline>'' s else s)
        in print_array_loop buf sz (index + 1) s
      else s)"
  by pat_completeness auto
termination
proof (relation "measure (\<lambda>(buf, sz, index, s). unat sz - unat index)")
  show "wf (measure (\<lambda>(buf :: 8 word list, sz :: 32 word, index :: 32 word, s :: 'a state).
          unat sz - unat index))"
    by simp
next
  fix buf :: "8 word list" and sz index :: "32 word" and s x xa :: "'a state"
  assume lt: "index < sz"
  then have "unat index < unat sz"
    by (simp add: word_less_nat_alt)
  moreover have "unat sz < 2 ^ 32"
    using unsigned_less [of sz] by simp
  ultimately have "unat (index + 1) = unat index + 1"
    by (simp add: unat_word_ariths)
  with lt show "((buf, sz, index + 1, xa), buf, sz, index, s)
      \<in> measure (\<lambda>(buf, sz, index, s). unat sz - unat index)"
    by (simp add: word_less_nat_alt)
qed

declare print_array_loop.simps [simp del]

definition print_array :: "string \<Rightarrow> 8 word list \<Rightarrow> 32 word \<Rightarrow> 'hw state \<Rightarrow> 'hw state" where
  "print_array message buf sz s =
     (let s = printf (''\<newline>'' @ message @ '' ('' @ fmt_u sz @ '' bytes):\<newline>'') s;
          s = printf ''-------------------------\<newline>'' s
      in print_array_loop buf sz 0 s)"

definition check_address :: "nat \<Rightarrow> 'hw platform \<Rightarrow> string \<Rightarrow> 32 word \<Rightarrow> 'hw state \<Rightarrow> 'hw state exec" where
  "check_address fuel p message addr s =
     (if baseAddress p > addr then
        let s = printf rule_line s;
            s = printf (''FAIL: '' @ message @ ''\<newline>'') s;
            s = printf (''Address: 0x'' @ fmt_lx addr) s;
            s = printf rule_line s;
            s = cyhal_gpio_write CYBSP_LED_STATE_ON s
        in while_true fuel s
      else Returned s)"

definition hi_word :: string where
  "hi_word = ''Hello from the external string!\<newline>''"

text \<open>
  An array declared without an initialiser holds whatever the stack held: \<open>n\<close> bytes of
  the frame, from offset \<open>off\<close>.
\<close>

definition uninitialised :: "'hw platform \<Rightarrow> nat \<Rightarrow> 32 word \<Rightarrow> 8 word list" where
  "uninitialised p off n = map (stack p) [off ..< off + unat n]"

text \<open>The loop that initialises the transfer buffers (lines 221 to 225).\<close>

function init_buffers_loop ::
    "32 word \<Rightarrow> 8 word list \<times> 8 word list \<Rightarrow> 8 word list \<times> 8 word list" where
  "init_buffers_loop index (txBuffer, rxBuffer) =
     (if index < PACKET_SIZE then
        init_buffers_loop (index + 1)
          (txBuffer[unat index := ucast (index AND 0xFF)], rxBuffer[unat index := 0])
      else (txBuffer, rxBuffer))"
  by pat_completeness auto
termination
proof (relation "measure (\<lambda>(index, bufs). unat PACKET_SIZE - unat index)")
  show "wf (measure (\<lambda>(index :: 32 word, bufs :: 8 word list \<times> 8 word list).
          unat PACKET_SIZE - unat index))"
    by simp
next
  fix index :: "32 word" and txBuffer rxBuffer :: "8 word list"
  assume lt: "index < PACKET_SIZE"
  then have "unat index < 64"
    by (simp add: word_less_nat_alt PACKET_SIZE_def)
  then have "unat (index + 1) = unat index + 1"
    by (simp add: unat_word_ariths)
  with lt show "((index + 1, txBuffer[unat index := ucast (index AND 0xFF)],
        rxBuffer[unat index := 0]), index, txBuffer, rxBuffer)
      \<in> measure (\<lambda>(index, bufs). unat PACKET_SIZE - unat index)"
    by (simp add: word_less_nat_alt)
qed

declare init_buffers_loop.simps [simp del]

text \<open>\<^verbatim>\<open>for(;;)\<close> at the end of main: toggle the LED, wait, again.\<close>

fun idle_loop :: "nat \<Rightarrow> 'hw state \<Rightarrow> 'hw state exec" where
  "idle_loop 0 s = Running s"
| "idle_loop (Suc fuel) s =
     idle_loop fuel (cyhal_system_delay_ms LED_TOGGLE_DELAY_MSEC (cyhal_gpio_toggle s))"

definition main :: "nat \<Rightarrow> 'hw platform \<Rightarrow> 'hw state \<Rightarrow> 'hw state exec" where
  "main fuel p s =
    (let (result, s) = cybsp_init p s in
     and_then (CY_ASSERT fuel p (result = CY_RSLT_SUCCESS) s) (\<lambda>s.
     let s = enable_irq s;
         s = cy_retarget_io_init s;
         s = cyhal_gpio_init CYBSP_LED_STATE_OFF s;
         s = printf (CHR 0x1B # ''[2J'' @ CHR 0x1B # ''[;H'') s;
         s = printf ''*************** PSoC 6 MCU: External Flash Access in XIP Mode ***************\<newline>\<newline>'' s;
         (result, s) = cy_serial_flash_qspi_init p s
     in and_then (check_status fuel ''Serial Flash initialization failed'' result s) (\<lambda>s.
     let txBuffer = uninitialised p 0 PACKET_SIZE;
         rxBuffer = uninitialised p (unat PACKET_SIZE) PACKET_SIZE;
         (txBuffer, rxBuffer) = init_buffers_loop 0 (txBuffer, rxBuffer);
         extMemAddress = 0;
         (sectorSize, s) = cy_serial_flash_qspi_get_erase_size p extMemAddress s;
         extMemAddress = sectorSize;
         (total, s) = cy_serial_flash_qspi_get_size p s;
         s = printf (''\<newline>1. Total Flash Size: '' @ fmt_u total @ '' bytes.\<newline>'') s;
         s = printf (''\<newline>1. Erasing '' @ fmt_u sectorSize @ '' bytes of memory.\<newline>'') s;
         (result, s) = cy_serial_flash_qspi_erase p extMemAddress sectorSize s
     in and_then (check_status fuel ''Erasing memory failed'' result s) (\<lambda>s.
     let s = printf ''\<newline>2. Reading after Erase. Ensure that the data read is 0xFF for each byte.\<newline>'' s;
         (result, rxBuffer, s) = cy_serial_flash_qspi_read p extMemAddress PACKET_SIZE rxBuffer s
     in and_then (check_status fuel ''Reading memory failed'' result s) (\<lambda>s.
     let s = print_array ''Received Data'' rxBuffer PACKET_SIZE s;
         s = printf ''\<newline>3. Writing data to memory.\<newline>'' s;
         (result, s) = cy_serial_flash_qspi_write p extMemAddress PACKET_SIZE txBuffer s
     in and_then (check_status fuel ''Writing to memory failed'' result s) (\<lambda>s.
     let s = print_array ''Written Data'' txBuffer PACKET_SIZE s;
         s = printf ''\<newline>4. Reading back for verification.\<newline>'' s;
         (result, rxBuffer, s) = cy_serial_flash_qspi_read p extMemAddress PACKET_SIZE rxBuffer s
     in and_then (check_status fuel ''Reading memory failed'' result s) (\<lambda>s.
     let s = print_array ''Received Data'' rxBuffer PACKET_SIZE s
     in and_then
          (check_status fuel
             ''Read data does not match with written data. Read/Write operation failed.''
             (word_of_int (memcmp txBuffer rxBuffer PACKET_SIZE)) s) (\<lambda>s.
     let s = printf rule_line s;
         s = printf ''\<newline>SUCCESS: Read data matches with written data!\<newline>'' s;
         s = printf rule_line s;
         s = printf ''\<newline>5. Entering XIP Mode.\<newline>'' s;
         s = cy_serial_flash_qspi_enable_xip p True s;
         addr = hi_word_address p
     in and_then (check_address fuel p ''String not found in external memory.'' addr s) (\<lambda>s.
     let s = printf (''\<newline>String in the external memory at address: 0x'' @ fmt_lx addr) s;
         s = printf (''\<newline>-------------------------------------------------------\<newline>'' @ hi_word) s;
         addr = print_from_external_memory_address p
     in and_then (check_address fuel p ''Function not found in external memory.'' addr s) (\<lambda>s.
     let s = printf (''\<newline>Function call from external memory address: 0x'' @ fmt_lx addr) s;
         s = printf ''\<newline>-------------------------------------------------------'' s;
         s = print_from_external_memory ''\<newline>Hello from the external function!\<newline>'' s;
         s = printf rule_line s;
         s = printf ''\<newline>SUCCESS: Data successfully accessed in XIP mode!\<newline>'' s;
         s = printf rule_line s
     in idle_loop fuel s))))))))))"

subsection \<open>Reading a run\<close>

text \<open>
  The state in which a failed status check parks: the diagnostic block (message and error
  code between two rules) is on the console, the LED has been switched on, and that write
  is the last call made.
\<close>

definition status_failure_text :: "string \<Rightarrow> 32 word \<Rightarrow> string" where
  "status_failure_text message status =
     rule_line @ (''\<newline>FAIL: '' @ message @ ''\<newline>'')
       @ (''Error Code: 0x'' @ fmt_08lX status @ ''\<newline>'') @ rule_line"

definition status_failure :: "string \<Rightarrow> 32 word \<Rightarrow> 'hw state \<Rightarrow> 'hw state" where
  "status_failure message status s =
     s\<lparr>console := console s @ status_failure_text message status,
       led := CYBSP_LED_STATE_ON,
       calls := calls s @ [Gpio_write CYBSP_LED_STATE_ON]\<rparr>"

definition placement_failure_text :: "string \<Rightarrow> 32 word \<Rightarrow> string" where
  "placement_failure_text message addr =
     rule_line @ (''FAIL: '' @ message @ ''\<newline>'') @ (''Address: 0x'' @ fmt_lx addr) @ rule_line"

definition placement_failure :: "string \<Rightarrow> 32 word \<Rightarrow> 'hw state \<Rightarrow> 'hw state" where
  "placement_failure message addr s =
     s\<lparr>console := console s @ placement_failure_text message addr,
       led := CYBSP_LED_STATE_ON,
       calls := calls s @ [Gpio_write CYBSP_LED_STATE_ON]\<rparr>"

text \<open>
  The text of a hex dump: the heading, then for each index in order the byte as
  \<^verbatim>\<open>0x\<close>, two upper-case hexadecimal digits and a space, with a newline after every
  sixteenth byte.
\<close>

definition hex_upper :: "nat \<Rightarrow> char" where
  "hex_upper d = digit_char ''0123456789ABCDEF'' d"

definition dump_byte :: "8 word list \<Rightarrow> nat \<Rightarrow> string" where
  "dump_byte buf i =
     ''0x'' @ [hex_upper (unat (buf ! i) div 16), hex_upper (unat (buf ! i) mod 16)] @ '' ''
       @ (if (i + 1) mod 16 = 0 then ''\<newline>'' else [])"

definition print_array_text :: "string \<Rightarrow> 8 word list \<Rightarrow> 32 word \<Rightarrow> string" where
  "print_array_text message buf sz =
     (''\<newline>'' @ message @ '' ('' @ fmt_u sz @ '' bytes):\<newline>'')
       @ ''-------------------------\<newline>''
       @ concat (map (dump_byte buf) [0 ..< unat sz])"

text \<open>Readers of the call log.\<close>

fun driver_status :: "call \<Rightarrow> 32 word" where
  "driver_status (Qspi_init st) = st"
| "driver_status (Qspi_erase addr len st) = st"
| "driver_status (Qspi_read addr len buf st) = st"
| "driver_status (Qspi_write addr len bytes st) = st"
| "driver_status _ = 0"

text \<open>The message of the status check that main makes after each driver call.\<close>

fun check_message :: "call \<Rightarrow> string" where
  "check_message (Qspi_init st) = ''Serial Flash initialization failed''"
| "check_message (Qspi_erase addr len st) = ''Erasing memory failed''"
| "check_message (Qspi_read addr len buf st) = ''Reading memory failed''"
| "check_message (Qspi_write addr len bytes st) = ''Writing to memory failed''"
| "check_message _ = []"

definition any_driver_call_failed :: "call list \<Rightarrow> bool" where
  "any_driver_call_failed cs = list_ex (\<lambda>c. driver_status c \<noteq> 0) cs"

fun the_write :: "call \<Rightarrow> 8 word list option" where
  "the_write (Qspi_write addr len bytes st) = Some bytes"
| "the_write _ = None"

fun the_read :: "call \<Rightarrow> (8 word list \<times> 32 word) option" where
  "the_read (Qspi_read addr len buf st) = Some (buf, st)"
| "the_read _ = None"

text \<open>
  The bytes handed to the first write, with the buffer and the status of the read that
  follows it (the read back for verification).
\<close>

fun post_write_read :: "call list \<Rightarrow> (8 word list \<times> 8 word list \<times> 32 word) option" where
  "post_write_read [] = None"
| "post_write_read (c # cs) =
     (case the_write c of
        None \<Rightarrow> post_write_read cs
      | Some bytes \<Rightarrow>
          (case cs of
             [] \<Rightarrow> None
           | c' # _ \<Rightarrow> (case the_read c' of None \<Rightarrow> None | Some (buf, st) \<Rightarrow> Some (bytes, buf, st))))"

definition compare_found_mismatch :: "call list \<Rightarrow> bool" where
  "compare_found_mismatch cs =
     (case post_write_read cs of
        None \<Rightarrow> False
      | Some (bytes, buf, st) \<Rightarrow> list_ex (\<lambda>i. bytes ! i \<noteq> buf ! i) [0 ..< unat PACKET_SIZE])"

text \<open>The buffer and the status of the first read, and the calls made after it.\<close>

fun first_read :: "call list \<Rightarrow> (8 word list \<times> 32 word \<times> call list) option" where
  "first_read [] = None"
| "first_read (c # cs) =
     (case the_read c of None \<Rightarrow> first_read cs | Some (buf, st) \<Rightarrow> Some (buf, st, cs))"

text \<open>The bytes the program writes: the byte \<open>i\<close> at index \<open>i\<close>, 64 of them.\<close>

definition pattern :: "8 word list" where
  "pattern = map of_nat [0 ..< 64]"

subsection \<open>The serial-flash driver\<close>

text \<open>
  Modelled from the spec: the serial-flash driver and the flash device behind it are not
  in the source tree (main.c only calls them). What the spec says of them, as a contract
  on the platform's operations, for a view \<open>content\<close> of the hardware state as the byte
  stored at each device offset:
  \<^item> the geometry is fixed: the erase-sector size is a constant of the device;
  \<^item> bring-up, driver initialisation, the XIP switch and reads leave the content alone
    ("no further flash mutation");
  \<^item> a successful erase leaves the erased value in every cell of the range and changes
    no other cell ("after erasing a sector and reading back any sub-range within it,
    every byte read equals the device's documented erased value");
  \<^item> a successful read delivers the content of the range;
  \<^item> a write changes no cell outside its range.
  What a write stores inside its range is not assumed: the program checks it by reading
  back.
\<close>

definition flash_contract ::
    "'hw platform \<Rightarrow> ('hw \<Rightarrow> nat \<Rightarrow> 8 word) \<Rightarrow> 8 word \<Rightarrow> 32 word \<Rightarrow> bool" where
  "flash_contract p content erased sector \<longleftrightarrow>
     (\<forall>addr h. drv_get_erase_size p addr h = sector) \<and>
     (\<forall>h. content (snd (drv_bsp_init p h)) = content h) \<and>
     (\<forall>h. content (snd (drv_init p h)) = content h) \<and>
     (\<forall>enable h. content (drv_enable_xip p enable h) = content h) \<and>
     (\<forall>addr len h. fst (drv_erase p addr len h) = 0 \<longrightarrow>
        (\<forall>x. content (snd (drv_erase p addr len h)) x =
           (if unat addr \<le> x \<and> x < unat addr + unat len then erased else content h x))) \<and>
     (\<forall>addr len h. content (snd (snd (drv_read p addr len h))) = content h) \<and>
     (\<forall>addr len h. fst (drv_read p addr len h) = 0 \<longrightarrow>
        take (unat len) (fst (snd (drv_read p addr len h)))
          = map (content h) [unat addr ..< unat addr + unat len]) \<and>
     (\<forall>addr len bytes h x. \<not> (unat addr \<le> x \<and> x < unat addr + unat len) \<longrightarrow>
        content (snd (drv_write p addr len bytes h)) x = content h x)"

subsection \<open>A simulated board\<close>

text \<open>
  A small platform to run the program on, so that the hypotheses of the theorems below
  are met by concrete runs: a flash of byte cells with a given erased value and sector
  size, and a list of statuses to inject, one per status-returning driver call in order
  (zero, or an exhausted list, lets the call proceed normally; a call that fails leaves
  the cells alone).
\<close>

record sim_hw =
  cells :: "8 word list"
  pending :: "32 word list"

definition sim_status :: "sim_hw \<Rightarrow> 32 word \<times> sim_hw" where
  "sim_status h = (case pending h of [] \<Rightarrow> (0, h) | st # rest \<Rightarrow> (st, h\<lparr>pending := rest\<rparr>))"

definition sim_erase :: "8 word \<Rightarrow> 32 word \<Rightarrow> 32 word \<Rightarrow> 32 word \<Rightarrow> sim_hw \<Rightarrow> 32 word \<times> sim_hw" where
  "sim_erase erased sector addr len h =
     (let (st, h) = sim_status h in
      if st \<noteq> 0 then (st, h)
      else if sector = 0 \<or> unat addr mod unat sector \<noteq> 0 \<or> unat len mod unat sector \<noteq> 0
              \<or> length (cells h) < unat addr + unat len then (1, h)
      else (0, h\<lparr>cells := take (unat addr) (cells h) @ replicate (unat len) erased
                              @ drop (unat addr + unat len) (cells h)\<rparr>))"

definition sim_read :: "32 word \<Rightarrow> 32 word \<Rightarrow> sim_hw \<Rightarrow> 32 word \<times> 8 word list \<times> sim_hw" where
  "sim_read addr len h =
     (let (st, h) = sim_status h in
      if st \<noteq> 0 then (st, [], h)
      else if length (cells h) < unat addr + unat len then (1, [], h)
      else (0, take (unat len) (drop (unat addr) (cells h)), h))"

definition sim_write :: "32 word \<Rightarrow> 32 word \<Rightarrow> 8 word list \<Rightarrow> sim_hw \<Rightarrow> 32 word \<times> sim_hw" where
  "sim_write addr len bytes h =
     (let (st, h) = sim_status h in
      if st \<noteq> 0 then (st, h)
      else if length (cells h) < unat addr + unat len \<or> length bytes < unat len then (1, h)
      else (0, h\<lparr>cells := take (unat addr) (cells h) @ take (unat len) bytes
                              @ drop (unat addr + unat len) (cells h)\<rparr>))"

definition sim_platform :: "8 word \<Rightarrow> 32 word \<Rightarrow> sim_hw platform" where
  "sim_platform erased sector =
     \<lparr>drv_bsp_init = (\<lambda>h. (0, h)),
      drv_init = sim_status,
      drv_get_erase_size = (\<lambda>addr h. sector),
      drv_get_size = (\<lambda>h. of_nat (length (cells h))),
      drv_erase = sim_erase erased sector,
      drv_read = sim_read,
      drv_write = sim_write,
      drv_enable_xip = (\<lambda>enable h. h),
      baseAddress = 0x18000000,
      hi_word_address = 0x18000400,
      print_from_external_memory_address = 0x18000500,
      assert_active = True,
      stack = (\<lambda>i. 0xA5)\<rparr>"

definition sim_boot :: "8 word list \<Rightarrow> 32 word list \<Rightarrow> sim_hw state" where
  "sim_boot mem faults =
     \<lparr>hw = \<lparr>cells = mem, pending = faults\<rparr>, console = [], led = CYBSP_LED_STATE_OFF, calls = []\<rparr>"

definition sim_content :: "sim_hw \<Rightarrow> nat \<Rightarrow> 8 word" where
  "sim_content h x = (if x < length (cells h) then cells h ! x else 0)"

section \<open>Facts about the program\<close>

subsection \<open>What each call does to the state\<close>

lemma while_true_Running [simp]: "while_true fuel s = Running s"
  by (induction fuel) simp_all

lemma printf_sel [simp]:
  "hw (printf t s) = hw s" "led (printf t s) = led s" "calls (printf t s) = calls s"
  "console (printf t s) = console s @ t"
  by (simp_all add: printf_def)

lemma logged_sel [simp]:
  "hw (logged c s) = hw s" "led (logged c s) = led s" "calls (logged c s) = calls s @ [c]"
  "console (logged c s) = console s"
  by (simp_all add: logged_def)

lemma check_status_fail:
  "status \<noteq> 0 \<Longrightarrow> check_status fuel m status s = Running (status_failure m status s)"
  by (simp add: check_status_def Let_def printf_def cyhal_gpio_write_def logged_def
      status_failure_def status_failure_text_def)

lemma check_status_ok [simp]: "check_status fuel m 0 s = Returned s"
  by (simp add: check_status_def)

lemma check_address_fail:
  "addr < baseAddress p \<Longrightarrow> check_address fuel p m addr s = Running (placement_failure m addr s)"
  by (simp add: check_address_def Let_def printf_def cyhal_gpio_write_def logged_def
      placement_failure_def placement_failure_text_def)

lemma check_address_ok: "baseAddress p \<le> addr \<Longrightarrow> check_address fuel p m addr s = Returned s"
  by (auto simp add: check_address_def)


subsection \<open>The hex dump\<close>

lemma digits_of_16_byte:
  "n < 256 \<Longrightarrow> digits_of 16 n = (if n < 16 then [n] else [n div 16, n mod 16])"
  by (subst digits_of.simps, subst digits_of.simps) auto

lemma fmt_02X_two_digits:
  "fmt_02X v = [hex_upper (unat v div 16), hex_upper (unat v mod 16)]"
proof -
  have "unat v < 256" using unsigned_less [of v] by simp
  then show ?thesis
    by (auto simp add: fmt_02X_def digits_of_16_byte zero_pad_def hex_upper_def digit_char_def)
qed

lemma print_array_loop_console:
  "console (print_array_loop buf sz index s)
     = console s @ concat (map (dump_byte buf) [unat index ..< unat sz])"
proof (induction buf sz index s rule: print_array_loop.induct)
  case (1 buf sz index s)
  show ?case
  proof (cases "index < sz")
    case False
    then show ?thesis
      by (subst print_array_loop.simps) (simp add: word_less_nat_alt)
  next
    case True
    then have lt: "unat index < unat sz"
      by (simp add: word_less_nat_alt)
    moreover have "unat sz < 2 ^ 32"
      using unsigned_less [of sz] by simp
    ultimately have suc: "unat (index + 1) = unat index + 1"
      by (simp add: unat_word_ariths)
    have brk: "(0 = (index + 1) mod NUM_BYTES_PER_LINE) \<longleftrightarrow> (unat index + 1) mod 16 = 0"
      using suc by (simp add: NUM_BYTES_PER_LINE_def word_eq_iff_unsigned [where ?'a = nat] unat_mod)
    define s1 where "s1 = printf (''0x'' @ fmt_02X (buf ! unat index) @ '' '') s"
    define s2 where "s2 = (if 0 = (index + 1) mod NUM_BYTES_PER_LINE then printf ''\<newline>'' s1 else s1)"
    have "print_array_loop buf sz index s = print_array_loop buf sz (index + 1) s2"
      by (subst print_array_loop.simps) (simp add: True Let_def s1_def s2_def)
    moreover have "console (print_array_loop buf sz (index + 1) s2)
        = console s2 @ concat (map (dump_byte buf) [unat (index + 1) ..< unat sz])"
      using "1.IH" [OF True s1_def s2_def] .
    moreover have "console s2 = console s @ dump_byte buf (unat index)"
      by (simp add: s2_def s1_def brk dump_byte_def fmt_02X_two_digits)
    ultimately show ?thesis
      using lt by (simp add: suc upt_conv_Cons)
  qed
qed

lemma print_array_loop_sel [simp]:
  "hw (print_array_loop buf sz i s) = hw s \<and> led (print_array_loop buf sz i s) = led s
   \<and> calls (print_array_loop buf sz i s) = calls s"
  by (induction buf sz i s rule: print_array_loop.induct)
     (subst (1 2 3) print_array_loop.simps, simp add: Let_def)

lemma print_array_sel [simp]:
  "hw (print_array m buf sz s) = hw s" "led (print_array m buf sz s) = led s"
  "calls (print_array m buf sz s) = calls s"
  "console (print_array m buf sz s) = console s @ print_array_text m buf sz"
  by (simp_all add: print_array_def Let_def print_array_loop_console print_array_text_def)


subsection \<open>The buffers\<close>

lemma length_init_buffers_loop:
  "length (fst (init_buffers_loop index (tx, rx))) = length tx
   \<and> length (snd (init_buffers_loop index (tx, rx))) = length rx"
  by (induction index "(tx, rx)" arbitrary: tx rx rule: init_buffers_loop.induct)
     (subst (1 2) init_buffers_loop.simps, simp)

lemma init_buffers_loop_from:
  "unat index \<le> 64 \<Longrightarrow> length tx = 64 \<Longrightarrow> length rx = 64 \<Longrightarrow>
     init_buffers_loop index (tx, rx)
       = (take (unat index) tx @ map of_nat [unat index ..< 64],
          take (unat index) rx @ replicate (64 - unat index) 0)"
proof (induction index "(tx, rx)" arbitrary: tx rx rule: init_buffers_loop.induct)
  case (1 index tx rx)
  show ?case
  proof (cases "index < PACKET_SIZE")
    case False
    with "1.prems" have "unat index = 64"
      by (simp add: word_less_nat_alt PACKET_SIZE_def)
    with False "1.prems" show ?thesis
      by (subst init_buffers_loop.simps) simp
  next
    case True
    then have lt: "unat index < 64"
      by (simp add: word_less_nat_alt PACKET_SIZE_def)
    then have suc: "unat (index + 1) = Suc (unat index)"
      by (simp add: unat_word_ariths)
    have m: "(0xFF :: 32 word) = mask 8"
      by (simp add: mask_eq_exp_minus_1)
    have "(ucast (index AND 0xFF) :: 8 word) = ucast index"
      unfolding m by (rule bit_word_eqI) (auto simp add: bit_simps)
    then have byte: "(ucast (index AND 0xFF) :: 8 word) = of_nat (unat index)"
      by simp
    have "init_buffers_loop index (tx, rx)
        = init_buffers_loop (index + 1)
            (tx[unat index := ucast (index AND 0xFF)], rx[unat index := 0])"
      by (subst init_buffers_loop.simps) (simp add: True)
    also have "\<dots> = (take (unat (index + 1)) (tx[unat index := ucast (index AND 0xFF)])
                    @ map of_nat [unat (index + 1) ..< 64],
                  take (unat (index + 1)) (rx[unat index := 0])
                    @ replicate (64 - unat (index + 1)) 0)"
      using lt "1.prems" by (intro "1.hyps" [OF True]) (simp_all add: suc)
    also have "\<dots> = (take (unat index) tx @ map of_nat [unat index ..< 64],
                  take (unat index) rx @ replicate (64 - unat index) 0)"
    proof -
      have "64 - unat index = Suc (63 - unat index)"
        using lt by simp
      then show ?thesis
        using lt "1.prems" by (simp add: suc byte take_Suc_conv_app_nth upt_conv_Cons)
    qed
    finally show ?thesis .
  qed
qed

lemma init_buffers:
  "init_buffers_loop 0 (uninitialised p 0 PACKET_SIZE, uninitialised p (unat PACKET_SIZE) PACKET_SIZE)
     = (map of_nat [0 ..< 64], replicate 64 0)"
  by (simp add: init_buffers_loop_from uninitialised_def PACKET_SIZE_def)


subsection \<open>The byte comparison\<close>

lemma length_stored [simp]: "length (stored bytes buf) = length buf"
  by (simp add: stored_def)

lemma memcmp_bytes_eq_0: "length a = length b \<Longrightarrow> memcmp_bytes a b = 0 \<longleftrightarrow> a = b"
proof (induction a b rule: list_induct2')
  case (4 x xs y ys)
  have "uint x - uint y = 0 \<longleftrightarrow> x = y"
    by (simp add: word_uint_eq_iff)
  with 4 show ?case by auto
qed simp_all

lemma memcmp_bytes_bound: "\<bar>memcmp_bytes a b\<bar> < 256"
proof (induction a b rule: memcmp_bytes.induct)
  case (1 a as b bs)
  have "uint a < 256" "uint b < 256"
    using uint_bounded [of a] uint_bounded [of b] by simp_all
  moreover have "0 \<le> uint a" "0 \<le> uint b"
    by simp_all
  ultimately have "\<bar>uint a - uint b\<bar> < 256"
    by linarith
  with 1 show ?case by simp
qed simp_all

lemma memcmp_status:
  assumes "length a = 64" "length b = 64"
  shows "(word_of_int (memcmp a b PACKET_SIZE) :: 32 word) = 0 \<longleftrightarrow> a = b"
proof -
  have "\<bar>memcmp a b PACKET_SIZE\<bar> < 256"
    by (simp add: memcmp_def memcmp_bytes_bound)
  then have "(word_of_int (memcmp a b PACKET_SIZE) :: 32 word) = 0 \<longleftrightarrow> memcmp a b PACKET_SIZE = 0"
    using dvd_imp_le_int [of "memcmp a b PACKET_SIZE" "2 ^ 32"]
    by (auto simp add: word_of_int_eq_0_iff)
  then show ?thesis
    using assms by (simp add: memcmp_def PACKET_SIZE_def memcmp_bytes_eq_0)
qed


subsection \<open>The idle loop\<close>

lemma idle_loop_Running: "idle_loop fuel s = Running (final (idle_loop fuel s))"
  by (induction fuel arbitrary: s) simp_all

lemma idle_loop_sel:
  "calls (final (idle_loop fuel s))
     = calls s @ concat (replicate fuel [Gpio_toggle, Delay_ms LED_TOGGLE_DELAY_MSEC])"
  "hw (final (idle_loop fuel s)) = hw s"
  "console (final (idle_loop fuel s)) = console s"
  by (induction fuel arbitrary: s) (simp_all add: cyhal_system_delay_ms_def cyhal_gpio_toggle_def)


subsection \<open>The outcomes of main\<close>

text \<open>
  main has ten outcomes: the assertion after bring-up halts; one of the five driver calls
  fails its status check; the read-back differs from the pattern; one of the two placement
  checks fails; or the program reaches the idle loop. For each, the state the check is
  entered in, the calls made up to there and the hardware state are given in terms of
  what the platform's operations return.
\<close>

lemma CY_ASSERT_passes:
  "assert_active p \<longrightarrow> r = 0 \<Longrightarrow> CY_ASSERT fuel p (r = CY_RSLT_SUCCESS) s = Returned s"
  by (auto simp add: CY_ASSERT_def CY_RSLT_SUCCESS_def)

lemmas wrappers = cybsp_init_def CY_ASSERT_passes enable_irq_def cy_retarget_io_init_def
      cyhal_gpio_init_def cy_serial_flash_qspi_init_def cy_serial_flash_qspi_get_erase_size_def
      cy_serial_flash_qspi_get_size_def cy_serial_flash_qspi_erase_def cy_serial_flash_qspi_read_def
      cy_serial_flash_qspi_write_def cy_serial_flash_qspi_enable_xip_def print_from_external_memory_def

lemma unat_PACKET_SIZE [simp]: "unat PACKET_SIZE = 64"
  by (simp add: PACKET_SIZE_def)

lemma init_buffers_main:
  "init_buffers_loop 0 (uninitialised p 0 PACKET_SIZE, uninitialised p 64 PACKET_SIZE)
     = (pattern, replicate 64 0)"
  using init_buffers [of p] by (simp add: pattern_def)

lemma length_pattern [simp]: "length pattern = 64"
  by (simp add: pattern_def)

lemma memcmp_same [simp]: "memcmp a a n = 0"
proof -
  have "memcmp_bytes xs xs = 0" for xs
    by (induction xs) simp_all
  then show ?thesis
    by (simp add: memcmp_def)
qed

lemma sublist_later: "sublist x t \<Longrightarrow> sublist x (a @ t)"
  by (auto simp add: sublist_def) (metis append.assoc)

lemma sublist_later_Cons: "sublist x t \<Longrightarrow> sublist x (c # t)"
  using sublist_later [of x t "[c]"] by simp

lemma run_assert_failed:
  assumes "drv_bsp_init p (hw s0) = (r0, h0)" "assert_active p" "r0 \<noteq> 0"
  shows "main fuel p s0 = Running (logged (Cybsp_init r0) (s0\<lparr>hw := h0\<rparr>))"
  using assms by (simp add: main_def cybsp_init_def CY_ASSERT_def CY_RSLT_SUCCESS_def)

lemma run_init_failed:
  assumes "drv_bsp_init p (hw s0) = (r0, h0)"
    "assert_active p \<longrightarrow> r0 = 0"
    "drv_init p h0 = (r, h1)"
    "r \<noteq> 0"
  shows "\<exists>sb. (\<forall>fuel. main fuel p s0 = Running (status_failure ''Serial Flash initialization failed'' r sb))
    \<and> calls sb = calls s0 @ [Cybsp_init r0, Enable_irq, Retarget_io_init, Gpio_init CYBSP_LED_STATE_OFF,
       Qspi_init r]
    \<and> hw sb = h1"
  apply (rule exI)
  apply (intro conjI allI)
  using assms apply (simp add: main_def wrappers check_status_fail check_address_fail check_address_ok init_buffers_main memcmp_status Let_def)
  using assms apply simp
  using assms apply simp
  done

lemma run_erase_failed:
  assumes "drv_bsp_init p (hw s0) = (r0, h0)"
    "assert_active p \<longrightarrow> r0 = 0"
    "drv_init p h0 = (0, h1)"
    "S = drv_get_erase_size p 0 h1"
    "T = drv_get_size p h1"
    "drv_erase p S S h1 = (r, h2)"
    "r \<noteq> 0"
  shows "\<exists>sb. (\<forall>fuel. main fuel p s0 = Running (status_failure ''Erasing memory failed'' r sb))
    \<and> calls sb = calls s0 @ [Cybsp_init r0, Enable_irq, Retarget_io_init, Gpio_init CYBSP_LED_STATE_OFF,
       Qspi_init 0,
       Qspi_get_erase_size 0 S, Qspi_get_size T,
       Qspi_erase S S r]
    \<and> hw sb = h2"
  apply (rule exI)
  apply (intro conjI allI)
  using assms apply (simp add: main_def wrappers check_status_fail check_address_fail check_address_ok init_buffers_main memcmp_status Let_def)
  using assms apply simp
  using assms apply simp
  done

lemma run_read1_failed:
  assumes "drv_bsp_init p (hw s0) = (r0, h0)"
    "assert_active p \<longrightarrow> r0 = 0"
    "drv_init p h0 = (0, h1)"
    "S = drv_get_erase_size p 0 h1"
    "T = drv_get_size p h1"
    "drv_erase p S S h1 = (0, h2)"
    "drv_read p S PACKET_SIZE h2 = (r, d3, h3)"
    "r \<noteq> 0"
    "rx1 = stored (take 64 d3) (replicate 64 0)"
  shows "\<exists>sb. (\<forall>fuel. main fuel p s0 = Running (status_failure ''Reading memory failed'' r sb))
    \<and> calls sb = calls s0 @ [Cybsp_init r0, Enable_irq, Retarget_io_init, Gpio_init CYBSP_LED_STATE_OFF,
       Qspi_init 0,
       Qspi_get_erase_size 0 S, Qspi_get_size T,
       Qspi_erase S S 0,
       Qspi_read S PACKET_SIZE rx1 r]
    \<and> hw sb = h3"
  apply (rule exI)
  apply (intro conjI allI)
  using assms apply (simp add: main_def wrappers check_status_fail check_address_fail check_address_ok init_buffers_main memcmp_status Let_def)
  using assms apply simp
  using assms apply simp
  done

lemma run_write_failed:
  assumes "drv_bsp_init p (hw s0) = (r0, h0)"
    "assert_active p \<longrightarrow> r0 = 0"
    "drv_init p h0 = (0, h1)"
    "S = drv_get_erase_size p 0 h1"
    "T = drv_get_size p h1"
    "drv_erase p S S h1 = (0, h2)"
    "drv_read p S PACKET_SIZE h2 = (0, d3, h3)"
    "rx1 = stored (take 64 d3) (replicate 64 0)"
    "drv_write p S PACKET_SIZE pattern h3 = (r, h4)"
    "r \<noteq> 0"
  shows "\<exists>sb. (\<forall>fuel. main fuel p s0 = Running (status_failure ''Writing to memory failed'' r sb))
    \<and> calls sb = calls s0 @ [Cybsp_init r0, Enable_irq, Retarget_io_init, Gpio_init CYBSP_LED_STATE_OFF,
       Qspi_init 0,
       Qspi_get_erase_size 0 S, Qspi_get_size T,
       Qspi_erase S S 0,
       Qspi_read S PACKET_SIZE rx1 0,
       Qspi_write S PACKET_SIZE pattern r]
    \<and> hw sb = h4
    \<and> sublist (print_array_text ''Received Data'' rx1 PACKET_SIZE) (console sb)"
  apply (rule exI)
  apply (intro conjI allI)
  using assms apply (simp add: main_def wrappers check_status_fail check_address_fail check_address_ok init_buffers_main memcmp_status Let_def)
  using assms apply simp
  using assms apply simp
  using assms apply (simp del: sublist_code)
  apply (rule sublist_append_rightI | rule sublist_later_Cons | rule sublist_later)+
  done

lemma run_read2_failed:
  assumes "drv_bsp_init p (hw s0) = (r0, h0)"
    "assert_active p \<longrightarrow> r0 = 0"
    "drv_init p h0 = (0, h1)"
    "S = drv_get_erase_size p 0 h1"
    "T = drv_get_size p h1"
    "drv_erase p S S h1 = (0, h2)"
    "drv_read p S PACKET_SIZE h2 = (0, d3, h3)"
    "rx1 = stored (take 64 d3) (replicate 64 0)"
    "drv_write p S PACKET_SIZE pattern h3 = (0, h4)"
    "drv_read p S PACKET_SIZE h4 = (r, d5, h5)"
    "r \<noteq> 0"
    "rx2 = stored (take 64 d5) rx1"
  shows "\<exists>sb. (\<forall>fuel. main fuel p s0 = Running (status_failure ''Reading memory failed'' r sb))
    \<and> calls sb = calls s0 @ [Cybsp_init r0, Enable_irq, Retarget_io_init, Gpio_init CYBSP_LED_STATE_OFF,
       Qspi_init 0,
       Qspi_get_erase_size 0 S, Qspi_get_size T,
       Qspi_erase S S 0,
       Qspi_read S PACKET_SIZE rx1 0,
       Qspi_write S PACKET_SIZE pattern 0,
       Qspi_read S PACKET_SIZE rx2 r]
    \<and> hw sb = h5
    \<and> sublist (print_array_text ''Received Data'' rx1 PACKET_SIZE) (console sb)"
  apply (rule exI)
  apply (intro conjI allI)
  using assms apply (simp add: main_def wrappers check_status_fail check_address_fail check_address_ok init_buffers_main memcmp_status Let_def)
  using assms apply simp
  using assms apply simp
  using assms apply (simp del: sublist_code)
  apply (rule sublist_append_rightI | rule sublist_later_Cons | rule sublist_later)+
  done

lemma run_mismatch:
  assumes "drv_bsp_init p (hw s0) = (r0, h0)"
    "assert_active p \<longrightarrow> r0 = 0"
    "drv_init p h0 = (0, h1)"
    "S = drv_get_erase_size p 0 h1"
    "T = drv_get_size p h1"
    "drv_erase p S S h1 = (0, h2)"
    "drv_read p S PACKET_SIZE h2 = (0, d3, h3)"
    "rx1 = stored (take 64 d3) (replicate 64 0)"
    "drv_write p S PACKET_SIZE pattern h3 = (0, h4)"
    "drv_read p S PACKET_SIZE h4 = (0, d5, h5)"
    "rx2 = stored (take 64 d5) rx1"
    "rx2 \<noteq> pattern"
  shows "\<exists>sb. (\<forall>fuel. main fuel p s0 = Running (status_failure ''Read data does not match with written data. Read/Write operation failed.'' (word_of_int (memcmp pattern rx2 PACKET_SIZE)) sb))
    \<and> calls sb = calls s0 @ [Cybsp_init r0, Enable_irq, Retarget_io_init, Gpio_init CYBSP_LED_STATE_OFF,
       Qspi_init 0,
       Qspi_get_erase_size 0 S, Qspi_get_size T,
       Qspi_erase S S 0,
       Qspi_read S PACKET_SIZE rx1 0,
       Qspi_write S PACKET_SIZE pattern 0,
       Qspi_read S PACKET_SIZE rx2 0]
    \<and> hw sb = h5
    \<and> sublist (print_array_text ''Received Data'' rx1 PACKET_SIZE) (console sb)"
  apply (rule exI)
  apply (intro conjI allI)
  using assms apply (simp add: main_def wrappers check_status_fail check_address_fail check_address_ok init_buffers_main memcmp_status Let_def)
  using assms apply simp
  using assms apply simp
  using assms apply (simp del: sublist_code)
  apply (rule sublist_append_rightI | rule sublist_later_Cons | rule sublist_later)+
  done

lemma run_string_misplaced:
  assumes "drv_bsp_init p (hw s0) = (r0, h0)"
    "assert_active p \<longrightarrow> r0 = 0"
    "drv_init p h0 = (0, h1)"
    "S = drv_get_erase_size p 0 h1"
    "T = drv_get_size p h1"
    "drv_erase p S S h1 = (0, h2)"
    "drv_read p S PACKET_SIZE h2 = (0, d3, h3)"
    "rx1 = stored (take 64 d3) (replicate 64 0)"
    "drv_write p S PACKET_SIZE pattern h3 = (0, h4)"
    "drv_read p S PACKET_SIZE h4 = (0, d5, h5)"
    "rx2 = stored (take 64 d5) rx1"
    "rx2 = pattern"
    "hi_word_address p < baseAddress p"
  shows "\<exists>sb. (\<forall>fuel. main fuel p s0 = Running (placement_failure ''String not found in external memory.'' (hi_word_address p) sb))
    \<and> calls sb = calls s0 @ [Cybsp_init r0, Enable_irq, Retarget_io_init, Gpio_init CYBSP_LED_STATE_OFF,
       Qspi_init 0,
       Qspi_get_erase_size 0 S, Qspi_get_size T,
       Qspi_erase S S 0,
       Qspi_read S PACKET_SIZE rx1 0,
       Qspi_write S PACKET_SIZE pattern 0,
       Qspi_read S PACKET_SIZE pattern 0,
       Qspi_enable_xip True]
    \<and> hw sb = drv_enable_xip p True h5
    \<and> led sb = CYBSP_LED_STATE_OFF
    \<and> sublist (print_array_text ''Received Data'' rx1 PACKET_SIZE) (console sb)"
  apply (rule exI)
  apply (intro conjI allI)
  using assms apply (simp add: main_def wrappers check_status_fail check_address_fail check_address_ok init_buffers_main memcmp_status Let_def)
  using assms apply simp
  using assms apply simp
  using assms apply simp
  using assms apply (simp del: sublist_code)
  apply (rule sublist_append_rightI | rule sublist_later_Cons | rule sublist_later)+
  done

lemma run_function_misplaced:
  assumes "drv_bsp_init p (hw s0) = (r0, h0)"
    "assert_active p \<longrightarrow> r0 = 0"
    "drv_init p h0 = (0, h1)"
    "S = drv_get_erase_size p 0 h1"
    "T = drv_get_size p h1"
    "drv_erase p S S h1 = (0, h2)"
    "drv_read p S PACKET_SIZE h2 = (0, d3, h3)"
    "rx1 = stored (take 64 d3) (replicate 64 0)"
    "drv_write p S PACKET_SIZE pattern h3 = (0, h4)"
    "drv_read p S PACKET_SIZE h4 = (0, d5, h5)"
    "rx2 = stored (take 64 d5) rx1"
    "rx2 = pattern"
    "baseAddress p \<le> hi_word_address p"
    "print_from_external_memory_address p < baseAddress p"
  shows "\<exists>sb. (\<forall>fuel. main fuel p s0 = Running (placement_failure ''Function not found in external memory.'' (print_from_external_memory_address p) sb))
    \<and> calls sb = calls s0 @ [Cybsp_init r0, Enable_irq, Retarget_io_init, Gpio_init CYBSP_LED_STATE_OFF,
       Qspi_init 0,
       Qspi_get_erase_size 0 S, Qspi_get_size T,
       Qspi_erase S S 0,
       Qspi_read S PACKET_SIZE rx1 0,
       Qspi_write S PACKET_SIZE pattern 0,
       Qspi_read S PACKET_SIZE pattern 0,
       Qspi_enable_xip True]
    \<and> hw sb = drv_enable_xip p True h5
    \<and> led sb = CYBSP_LED_STATE_OFF
    \<and> sublist (print_array_text ''Received Data'' rx1 PACKET_SIZE) (console sb)"
  apply (rule exI)
  apply (intro conjI allI)
  using assms apply (simp add: main_def wrappers check_status_fail check_address_fail check_address_ok init_buffers_main memcmp_status Let_def)
  using assms apply simp
  using assms apply simp
  using assms apply simp
  using assms apply (simp del: sublist_code)
  apply (rule sublist_append_rightI | rule sublist_later_Cons | rule sublist_later)+
  done

lemma run_idle:
  assumes "drv_bsp_init p (hw s0) = (r0, h0)"
    "assert_active p \<longrightarrow> r0 = 0"
    "drv_init p h0 = (0, h1)"
    "S = drv_get_erase_size p 0 h1"
    "T = drv_get_size p h1"
    "drv_erase p S S h1 = (0, h2)"
    "drv_read p S PACKET_SIZE h2 = (0, d3, h3)"
    "rx1 = stored (take 64 d3) (replicate 64 0)"
    "drv_write p S PACKET_SIZE pattern h3 = (0, h4)"
    "drv_read p S PACKET_SIZE h4 = (0, d5, h5)"
    "rx2 = stored (take 64 d5) rx1"
    "rx2 = pattern"
    "baseAddress p \<le> hi_word_address p"
    "baseAddress p \<le> print_from_external_memory_address p"
  shows "\<exists>sb. (\<forall>fuel. main fuel p s0 = idle_loop fuel sb)
    \<and> calls sb = calls s0 @ [Cybsp_init r0, Enable_irq, Retarget_io_init, Gpio_init CYBSP_LED_STATE_OFF,
       Qspi_init 0,
       Qspi_get_erase_size 0 S, Qspi_get_size T,
       Qspi_erase S S 0,
       Qspi_read S PACKET_SIZE rx1 0,
       Qspi_write S PACKET_SIZE pattern 0,
       Qspi_read S PACKET_SIZE pattern 0,
       Qspi_enable_xip True]
    \<and> hw sb = drv_enable_xip p True h5
    \<and> led sb = CYBSP_LED_STATE_OFF
    \<and> sublist (print_array_text ''Received Data'' rx1 PACKET_SIZE) (console sb)"
  apply (rule exI)
  apply (intro conjI allI)
  using assms apply (simp add: main_def wrappers check_status_fail check_address_fail check_address_ok init_buffers_main memcmp_status Let_def)
  using assms apply simp
  using assms apply simp
  using assms apply simp
  using assms apply (simp del: sublist_code)
  apply (rule sublist_append_rightI | rule sublist_later_Cons | rule sublist_later)+
  done

lemma main_cases [case_names assert_failed init_failed erase_failed read1_failed write_failed read2_failed mismatch string_misplaced function_misplaced idle]:
  fixes p :: "'hw platform" and s0 :: "'hw state"
  obtains
    (assert_failed) r0 h0 where
      "assert_active p"
      "r0 \<noteq> 0"
      "\<And>fuel. main fuel p s0 = Running (logged (Cybsp_init r0) (s0\<lparr>hw := h0\<rparr>))"
  | (init_failed) r0 r sb where
      "r \<noteq> 0"
      "\<And>fuel. main fuel p s0 = Running (status_failure ''Serial Flash initialization failed'' r sb)"
      "calls sb = calls s0 @ [Cybsp_init r0, Enable_irq, Retarget_io_init, Gpio_init CYBSP_LED_STATE_OFF,
         Qspi_init r]"
  | (erase_failed) r0 S T r sb where
      "r \<noteq> 0"
      "\<And>fuel. main fuel p s0 = Running (status_failure ''Erasing memory failed'' r sb)"
      "calls sb = calls s0 @ [Cybsp_init r0, Enable_irq, Retarget_io_init, Gpio_init CYBSP_LED_STATE_OFF,
         Qspi_init 0,
         Qspi_get_erase_size 0 S, Qspi_get_size T,
         Qspi_erase S S r]"
  | (read1_failed) r0 S T rx1 r sb where
      "r \<noteq> 0"
      "\<And>fuel. main fuel p s0 = Running (status_failure ''Reading memory failed'' r sb)"
      "calls sb = calls s0 @ [Cybsp_init r0, Enable_irq, Retarget_io_init, Gpio_init CYBSP_LED_STATE_OFF,
         Qspi_init 0,
         Qspi_get_erase_size 0 S, Qspi_get_size T,
         Qspi_erase S S 0,
         Qspi_read S PACKET_SIZE rx1 r]"
      "length rx1 = 64"
  | (write_failed) r0 S T rx1 r sb where
      "r \<noteq> 0"
      "\<And>fuel. main fuel p s0 = Running (status_failure ''Writing to memory failed'' r sb)"
      "calls sb = calls s0 @ [Cybsp_init r0, Enable_irq, Retarget_io_init, Gpio_init CYBSP_LED_STATE_OFF,
         Qspi_init 0,
         Qspi_get_erase_size 0 S, Qspi_get_size T,
         Qspi_erase S S 0,
         Qspi_read S PACKET_SIZE rx1 0,
         Qspi_write S PACKET_SIZE pattern r]"
      "length rx1 = 64"
      "sublist (print_array_text ''Received Data'' rx1 PACKET_SIZE) (console sb)"
  | (read2_failed) r0 S T rx1 rx2 r sb where
      "r \<noteq> 0"
      "\<And>fuel. main fuel p s0 = Running (status_failure ''Reading memory failed'' r sb)"
      "calls sb = calls s0 @ [Cybsp_init r0, Enable_irq, Retarget_io_init, Gpio_init CYBSP_LED_STATE_OFF,
         Qspi_init 0,
         Qspi_get_erase_size 0 S, Qspi_get_size T,
         Qspi_erase S S 0,
         Qspi_read S PACKET_SIZE rx1 0,
         Qspi_write S PACKET_SIZE pattern 0,
         Qspi_read S PACKET_SIZE rx2 r]"
      "length rx1 = 64"
      "length rx2 = 64"
      "sublist (print_array_text ''Received Data'' rx1 PACKET_SIZE) (console sb)"
  | (mismatch) r0 S T rx1 rx2 sb where
      "rx2 \<noteq> pattern"
      "length rx1 = 64"
      "length rx2 = 64"
      "(word_of_int (memcmp pattern rx2 PACKET_SIZE) :: 32 word) \<noteq> 0"
      "\<And>fuel. main fuel p s0 = Running (status_failure ''Read data does not match with written data. Read/Write operation failed.'' (word_of_int (memcmp pattern rx2 PACKET_SIZE)) sb)"
      "calls sb = calls s0 @ [Cybsp_init r0, Enable_irq, Retarget_io_init, Gpio_init CYBSP_LED_STATE_OFF,
         Qspi_init 0,
         Qspi_get_erase_size 0 S, Qspi_get_size T,
         Qspi_erase S S 0,
         Qspi_read S PACKET_SIZE rx1 0,
         Qspi_write S PACKET_SIZE pattern 0,
         Qspi_read S PACKET_SIZE rx2 0]"
      "sublist (print_array_text ''Received Data'' rx1 PACKET_SIZE) (console sb)"
  | (string_misplaced) r0 h0 h1 S T h2 d3 h3 rx1 h4 d5 h5 sb where
      "drv_bsp_init p (hw s0) = (r0, h0)"
      "assert_active p \<longrightarrow> r0 = 0"
      "drv_init p h0 = (0, h1)"
      "S = drv_get_erase_size p 0 h1"
      "drv_erase p S S h1 = (0, h2)"
      "drv_read p S PACKET_SIZE h2 = (0, d3, h3)"
      "drv_write p S PACKET_SIZE pattern h3 = (0, h4)"
      "drv_read p S PACKET_SIZE h4 = (0, d5, h5)"
      "stored (take 64 d5) (stored (take 64 d3) (replicate 64 0)) = pattern"
      "hi_word_address p < baseAddress p"
      "\<And>fuel. main fuel p s0 = Running (placement_failure ''String not found in external memory.'' (hi_word_address p) sb)"
      "calls sb = calls s0 @ [Cybsp_init r0, Enable_irq, Retarget_io_init, Gpio_init CYBSP_LED_STATE_OFF,
         Qspi_init 0,
         Qspi_get_erase_size 0 S, Qspi_get_size T,
         Qspi_erase S S 0,
         Qspi_read S PACKET_SIZE rx1 0,
         Qspi_write S PACKET_SIZE pattern 0,
         Qspi_read S PACKET_SIZE pattern 0,
         Qspi_enable_xip True]"
      "hw sb = drv_enable_xip p True h5"
      "led sb = CYBSP_LED_STATE_OFF"
      "length rx1 = 64"
      "sublist (print_array_text ''Received Data'' rx1 PACKET_SIZE) (console sb)"
  | (function_misplaced) r0 h0 h1 S T h2 d3 h3 rx1 h4 d5 h5 sb where
      "drv_bsp_init p (hw s0) = (r0, h0)"
      "assert_active p \<longrightarrow> r0 = 0"
      "drv_init p h0 = (0, h1)"
      "S = drv_get_erase_size p 0 h1"
      "drv_erase p S S h1 = (0, h2)"
      "drv_read p S PACKET_SIZE h2 = (0, d3, h3)"
      "drv_write p S PACKET_SIZE pattern h3 = (0, h4)"
      "drv_read p S PACKET_SIZE h4 = (0, d5, h5)"
      "stored (take 64 d5) (stored (take 64 d3) (replicate 64 0)) = pattern"
      "baseAddress p \<le> hi_word_address p"
      "print_from_external_memory_address p < baseAddress p"
      "\<And>fuel. main fuel p s0 = Running (placement_failure ''Function not found in external memory.'' (print_from_external_memory_address p) sb)"
      "calls sb = calls s0 @ [Cybsp_init r0, Enable_irq, Retarget_io_init, Gpio_init CYBSP_LED_STATE_OFF,
         Qspi_init 0,
         Qspi_get_erase_size 0 S, Qspi_get_size T,
         Qspi_erase S S 0,
         Qspi_read S PACKET_SIZE rx1 0,
         Qspi_write S PACKET_SIZE pattern 0,
         Qspi_read S PACKET_SIZE pattern 0,
         Qspi_enable_xip True]"
      "hw sb = drv_enable_xip p True h5"
      "led sb = CYBSP_LED_STATE_OFF"
      "length rx1 = 64"
      "sublist (print_array_text ''Received Data'' rx1 PACKET_SIZE) (console sb)"
  | (idle) r0 h0 h1 S T h2 d3 h3 rx1 h4 d5 h5 sb where
      "drv_bsp_init p (hw s0) = (r0, h0)"
      "assert_active p \<longrightarrow> r0 = 0"
      "drv_init p h0 = (0, h1)"
      "S = drv_get_erase_size p 0 h1"
      "drv_erase p S S h1 = (0, h2)"
      "drv_read p S PACKET_SIZE h2 = (0, d3, h3)"
      "drv_write p S PACKET_SIZE pattern h3 = (0, h4)"
      "drv_read p S PACKET_SIZE h4 = (0, d5, h5)"
      "stored (take 64 d5) (stored (take 64 d3) (replicate 64 0)) = pattern"
      "baseAddress p \<le> hi_word_address p"
      "baseAddress p \<le> print_from_external_memory_address p"
      "\<And>fuel. main fuel p s0 = idle_loop fuel sb"
      "calls sb = calls s0 @ [Cybsp_init r0, Enable_irq, Retarget_io_init, Gpio_init CYBSP_LED_STATE_OFF,
         Qspi_init 0,
         Qspi_get_erase_size 0 S, Qspi_get_size T,
         Qspi_erase S S 0,
         Qspi_read S PACKET_SIZE rx1 0,
         Qspi_write S PACKET_SIZE pattern 0,
         Qspi_read S PACKET_SIZE pattern 0,
         Qspi_enable_xip True]"
      "hw sb = drv_enable_xip p True h5"
      "led sb = CYBSP_LED_STATE_OFF"
      "length rx1 = 64"
      "sublist (print_array_text ''Received Data'' rx1 PACKET_SIZE) (console sb)"
proof -
  obtain r0 h0 where bsp: "drv_bsp_init p (hw s0) = (r0, h0)"
    by (cases "drv_bsp_init p (hw s0)")
  obtain r1 h1 where init: "drv_init p h0 = (r1, h1)"
    by (cases "drv_init p h0")
  define S where S: "S = drv_get_erase_size p 0 h1"
  define T where T: "T = drv_get_size p h1"
  obtain r2 h2 where erase: "drv_erase p S S h1 = (r2, h2)"
    by (cases "drv_erase p S S h1")
  obtain r3 d3 h3 where read1: "drv_read p S PACKET_SIZE h2 = (r3, d3, h3)"
    by (cases "drv_read p S PACKET_SIZE h2")
  define rx1 where rx1: "rx1 = stored (take 64 d3) (replicate 64 0)"
  obtain r4 h4 where wr: "drv_write p S PACKET_SIZE pattern h3 = (r4, h4)"
    by (cases "drv_write p S PACKET_SIZE pattern h3")
  obtain r5 d5 h5 where read2: "drv_read p S PACKET_SIZE h4 = (r5, d5, h5)"
    by (cases "drv_read p S PACKET_SIZE h4")
  define rx2 where rx2: "rx2 = stored (take 64 d5) rx1"
  have len: "length rx1 = 64" "length rx2 = 64"
    by (simp_all add: rx1 rx2)
  show thesis
  proof (cases "assert_active p \<and> r0 \<noteq> 0")
    case True
    then show thesis
      using run_assert_failed [OF bsp] by (intro assert_failed [of r0 h0]) simp_all
  next
    case False
    then have ok: "assert_active p \<longrightarrow> r0 = 0"
      by simp
    consider (f1) "r1 \<noteq> 0"
      | (f2) "r1 = 0" "r2 \<noteq> 0"
      | (f3) "r1 = 0" "r2 = 0" "r3 \<noteq> 0"
      | (f4) "r1 = 0" "r2 = 0" "r3 = 0" "r4 \<noteq> 0"
      | (f5) "r1 = 0" "r2 = 0" "r3 = 0" "r4 = 0" "r5 \<noteq> 0"
      | (f6) "r1 = 0" "r2 = 0" "r3 = 0" "r4 = 0" "r5 = 0" "rx2 \<noteq> pattern"
      | (f7) "r1 = 0" "r2 = 0" "r3 = 0" "r4 = 0" "r5 = 0" "rx2 = pattern"
          "hi_word_address p < baseAddress p"
      | (f8) "r1 = 0" "r2 = 0" "r3 = 0" "r4 = 0" "r5 = 0" "rx2 = pattern"
          "baseAddress p \<le> hi_word_address p" "print_from_external_memory_address p < baseAddress p"
      | (f9) "r1 = 0" "r2 = 0" "r3 = 0" "r4 = 0" "r5 = 0" "rx2 = pattern"
          "baseAddress p \<le> hi_word_address p" "baseAddress p \<le> print_from_external_memory_address p"
      by (meson not_le)
    then show thesis
    proof cases
      case f1
      from run_init_failed [OF bsp ok init f1] obtain sb where
        "\<forall>fuel. main fuel p s0 = Running (status_failure ''Serial Flash initialization failed'' r1 sb)"
        "calls sb = calls s0 @ [Cybsp_init r0, Enable_irq, Retarget_io_init,
           Gpio_init CYBSP_LED_STATE_OFF, Qspi_init r1]"
        by blast
      with f1 show thesis
        by (intro init_failed [of r1 sb r0]) simp_all
    next
      case f2
      from run_erase_failed [OF bsp ok init [unfolded f2] S T erase f2(2)] obtain sb where
        "\<forall>fuel. main fuel p s0 = Running (status_failure ''Erasing memory failed'' r2 sb)"
        "calls sb = calls s0 @ [Cybsp_init r0, Enable_irq, Retarget_io_init, Gpio_init CYBSP_LED_STATE_OFF,
           Qspi_init 0,
           Qspi_get_erase_size 0 S, Qspi_get_size T,
           Qspi_erase S S r2]"
        by blast
      with f2 show thesis
        by (intro erase_failed [of r2 sb r0 S T]) simp_all
    next
      case f3
      from run_read1_failed [OF bsp ok init [unfolded f3] S T erase [unfolded f3] read1 f3(3) rx1]
      obtain sb where
        "\<forall>fuel. main fuel p s0 = Running (status_failure ''Reading memory failed'' r3 sb)"
        "calls sb = calls s0 @ [Cybsp_init r0, Enable_irq, Retarget_io_init, Gpio_init CYBSP_LED_STATE_OFF,
           Qspi_init 0,
           Qspi_get_erase_size 0 S, Qspi_get_size T,
           Qspi_erase S S 0,
           Qspi_read S PACKET_SIZE rx1 r3]"
        by blast
      with f3 len show thesis
        by (intro read1_failed [of r3 sb r0 S T rx1]) simp_all
    next
      case f4
      from run_write_failed [OF bsp ok init [unfolded f4] S T erase [unfolded f4] read1 [unfolded f4]
          rx1 wr f4(4)]
      obtain sb where
        "\<forall>fuel. main fuel p s0 = Running (status_failure ''Writing to memory failed'' r4 sb)"
        "calls sb = calls s0 @ [Cybsp_init r0, Enable_irq, Retarget_io_init, Gpio_init CYBSP_LED_STATE_OFF,
           Qspi_init 0,
           Qspi_get_erase_size 0 S, Qspi_get_size T,
           Qspi_erase S S 0,
           Qspi_read S PACKET_SIZE rx1 0,
           Qspi_write S PACKET_SIZE pattern r4]"
        "sublist (print_array_text ''Received Data'' rx1 PACKET_SIZE) (console sb)"
        by blast
      with f4 len show thesis
        by (intro write_failed [of r4 sb r0 S T rx1]) simp_all
    next
      case f5
      from run_read2_failed [OF bsp ok init [unfolded f5] S T erase [unfolded f5] read1 [unfolded f5]
          rx1 wr [unfolded f5] read2 f5(5) rx2]
      obtain sb where
        "\<forall>fuel. main fuel p s0 = Running (status_failure ''Reading memory failed'' r5 sb)"
        "calls sb = calls s0 @ [Cybsp_init r0, Enable_irq, Retarget_io_init, Gpio_init CYBSP_LED_STATE_OFF,
           Qspi_init 0,
           Qspi_get_erase_size 0 S, Qspi_get_size T,
           Qspi_erase S S 0,
           Qspi_read S PACKET_SIZE rx1 0,
           Qspi_write S PACKET_SIZE pattern 0,
           Qspi_read S PACKET_SIZE rx2 r5]"
        "sublist (print_array_text ''Received Data'' rx1 PACKET_SIZE) (console sb)"
        by blast
      with f5 len show thesis
        by (intro read2_failed [of r5 sb r0 S T rx1 rx2]) simp_all
    next
      case f6
      from run_mismatch [OF bsp ok init [unfolded f6] S T erase [unfolded f6] read1 [unfolded f6]
          rx1 wr [unfolded f6] read2 [unfolded f6] rx2 f6(6)]
      obtain sb where
        "\<forall>fuel. main fuel p s0 = Running (status_failure ''Read data does not match with written data. Read/Write operation failed.'' (word_of_int (memcmp pattern rx2 PACKET_SIZE)) sb)"
        "calls sb = calls s0 @ [Cybsp_init r0, Enable_irq, Retarget_io_init, Gpio_init CYBSP_LED_STATE_OFF,
           Qspi_init 0,
           Qspi_get_erase_size 0 S, Qspi_get_size T,
           Qspi_erase S S 0,
           Qspi_read S PACKET_SIZE rx1 0,
           Qspi_write S PACKET_SIZE pattern 0,
           Qspi_read S PACKET_SIZE rx2 0]"
        "sublist (print_array_text ''Received Data'' rx1 PACKET_SIZE) (console sb)"
        by blast
      moreover have "(word_of_int (memcmp pattern rx2 PACKET_SIZE) :: 32 word) \<noteq> 0"
        using f6(6) len by (simp add: memcmp_status)
      ultimately show thesis
        using f6 len by (intro mismatch [of rx2 rx1 sb r0 S T]) simp_all
    next
      case f7
      have same: "stored (take 64 d5) (stored (take 64 d3) (replicate 64 0)) = pattern"
        using f7(6) by (simp add: rx1 rx2)
      from run_string_misplaced [OF bsp ok init [unfolded f7] S T erase [unfolded f7] read1 [unfolded f7]
          rx1 wr [unfolded f7] read2 [unfolded f7] rx2 f7(6) f7(7)]
      obtain sb where
        "\<forall>fuel. main fuel p s0 = Running (placement_failure ''String not found in external memory.'' (hi_word_address p) sb)"
        "calls sb = calls s0 @ [Cybsp_init r0, Enable_irq, Retarget_io_init, Gpio_init CYBSP_LED_STATE_OFF,
           Qspi_init 0,
           Qspi_get_erase_size 0 S, Qspi_get_size T,
           Qspi_erase S S 0,
           Qspi_read S PACKET_SIZE rx1 0,
           Qspi_write S PACKET_SIZE pattern 0,
           Qspi_read S PACKET_SIZE pattern 0,
           Qspi_enable_xip True]"
        "hw sb = drv_enable_xip p True h5" "led sb = CYBSP_LED_STATE_OFF"
        "sublist (print_array_text ''Received Data'' rx1 PACKET_SIZE) (console sb)"
        by blast
      then show thesis
        using bsp ok init erase read1 wr read2 f7 len S same
        by (intro string_misplaced [of r0 h0 h1 S h2 d3 h3 h4 d5 h5 sb T rx1]) simp_all
    next
      case f8
      have same: "stored (take 64 d5) (stored (take 64 d3) (replicate 64 0)) = pattern"
        using f8(6) by (simp add: rx1 rx2)
      from run_function_misplaced [OF bsp ok init [unfolded f8] S T erase [unfolded f8] read1 [unfolded f8]
          rx1 wr [unfolded f8] read2 [unfolded f8] rx2 f8(6) f8(7) f8(8)]
      obtain sb where
        "\<forall>fuel. main fuel p s0 = Running (placement_failure ''Function not found in external memory.'' (print_from_external_memory_address p) sb)"
        "calls sb = calls s0 @ [Cybsp_init r0, Enable_irq, Retarget_io_init, Gpio_init CYBSP_LED_STATE_OFF,
           Qspi_init 0,
           Qspi_get_erase_size 0 S, Qspi_get_size T,
           Qspi_erase S S 0,
           Qspi_read S PACKET_SIZE rx1 0,
           Qspi_write S PACKET_SIZE pattern 0,
           Qspi_read S PACKET_SIZE pattern 0,
           Qspi_enable_xip True]"
        "hw sb = drv_enable_xip p True h5" "led sb = CYBSP_LED_STATE_OFF"
        "sublist (print_array_text ''Received Data'' rx1 PACKET_SIZE) (console sb)"
        by blast
      then show thesis
        using bsp ok init erase read1 wr read2 f8 len S same
        by (intro function_misplaced [of r0 h0 h1 S h2 d3 h3 h4 d5 h5 sb T rx1]) simp_all
    next
      case f9
      have same: "stored (take 64 d5) (stored (take 64 d3) (replicate 64 0)) = pattern"
        using f9(6) by (simp add: rx1 rx2)
      from run_idle [OF bsp ok init [unfolded f9] S T erase [unfolded f9] read1 [unfolded f9]
          rx1 wr [unfolded f9] read2 [unfolded f9] rx2 f9(6) f9(7) f9(8)]
      obtain sb where
        "\<forall>fuel. main fuel p s0 = idle_loop fuel sb"
        "calls sb = calls s0 @ [Cybsp_init r0, Enable_irq, Retarget_io_init, Gpio_init CYBSP_LED_STATE_OFF,
           Qspi_init 0,
           Qspi_get_erase_size 0 S, Qspi_get_size T,
           Qspi_erase S S 0,
           Qspi_read S PACKET_SIZE rx1 0,
           Qspi_write S PACKET_SIZE pattern 0,
           Qspi_read S PACKET_SIZE pattern 0,
           Qspi_enable_xip True]"
        "hw sb = drv_enable_xip p True h5" "led sb = CYBSP_LED_STATE_OFF"
        "sublist (print_array_text ''Received Data'' rx1 PACKET_SIZE) (console sb)"
        by blast
      then show thesis
        using bsp ok init erase read1 wr read2 f9 len S same
        by (intro idle [of r0 h0 h1 S h2 d3 h3 h4 d5 h5 sb T rx1]) simp_all
    qed
  qed
qed


subsection \<open>Reading the final state\<close>

lemma set_idle_calls:
  "set (concat (replicate n [Gpio_toggle, Delay_ms LED_TOGGLE_DELAY_MSEC]))
     \<subseteq> {Gpio_toggle, Delay_ms LED_TOGGLE_DELAY_MSEC}"
  by (induction n) auto

lemma idle_calls_quiet:
  "c \<in> set (concat (replicate n [Gpio_toggle, Delay_ms LED_TOGGLE_DELAY_MSEC])) \<Longrightarrow> driver_status c = 0"
  using set_idle_calls [of n] by auto

lemma idle_calls_no_member:
  "c \<noteq> Gpio_toggle \<Longrightarrow> c \<noteq> Delay_ms LED_TOGGLE_DELAY_MSEC \<Longrightarrow>
     c \<notin> set (concat (replicate n [Gpio_toggle, Delay_ms LED_TOGGLE_DELAY_MSEC]))"
  using set_idle_calls [of n] by auto

lemma final_idle_loop:
  "final (idle_loop fuel s) = s' \<Longrightarrow>
     calls s' = calls s @ concat (replicate fuel [Gpio_toggle, Delay_ms LED_TOGGLE_DELAY_MSEC])
     \<and> hw s' = hw s \<and> console s' = console s"
  using idle_loop_sel [of fuel s] by auto

lemma status_failure_sel [simp]:
  "calls (status_failure m r s) = calls s @ [Gpio_write CYBSP_LED_STATE_ON]"
  "led (status_failure m r s) = CYBSP_LED_STATE_ON"
  "hw (status_failure m r s) = hw s"
  "console (status_failure m r s) = console s @ status_failure_text m r"
  by (simp_all add: status_failure_def)

lemma placement_failure_sel [simp]:
  "calls (placement_failure m a s) = calls s @ [Gpio_write CYBSP_LED_STATE_ON]"
  "led (placement_failure m a s) = CYBSP_LED_STATE_ON"
  "hw (placement_failure m a s) = hw s"
  "console (placement_failure m a s) = console s @ placement_failure_text m a"
  by (simp_all add: placement_failure_def)

lemma sublist_grow: "sublist x t \<Longrightarrow> sublist x (t @ u)"
  by (auto simp add: sublist_def) (metis append.assoc)

lemma unat_pattern_nth: "i < 64 \<Longrightarrow> unat (pattern ! i) = i mod 256"
  by (simp add: pattern_def unat_of_nat)

subsection \<open>The flash content after a passing run\<close>

lemma stored_full: "length bytes = length buf \<Longrightarrow> stored bytes buf = bytes"
  by (simp add: stored_def)

lemma flash_contractD:
  assumes "flash_contract p content erased sector"
  shows "drv_get_erase_size p addr h = sector"
    and "drv_bsp_init p h = (r, h') \<Longrightarrow> content h' = content h"
    and "drv_init p h = (r, h') \<Longrightarrow> content h' = content h"
    and "content (drv_enable_xip p enable h) = content h"
    and "drv_erase p addr len h = (0, h') \<Longrightarrow>
           content h' x = (if unat addr \<le> x \<and> x < unat addr + unat len then erased else content h x)"
    and "drv_read p addr len h = (r, bytes, h') \<Longrightarrow> content h' = content h"
    and "drv_read p addr len h = (0, bytes, h') \<Longrightarrow>
           take (unat len) bytes = map (content h) [unat addr ..< unat addr + unat len]"
    and "drv_write p addr len bs h = (r, h') \<Longrightarrow> \<not> (unat addr \<le> x \<and> x < unat addr + unat len) \<Longrightarrow>
           content h' x = content h x"
proof -
  note c = assms [unfolded flash_contract_def]
  show "drv_get_erase_size p addr h = sector"
    using c [THEN conjunct1, rule_format, of addr h] .
  show "drv_bsp_init p h = (r, h') \<Longrightarrow> content h' = content h"
    using c [THEN conjunct2, THEN conjunct1, rule_format, of h] by simp
  show "drv_init p h = (r, h') \<Longrightarrow> content h' = content h"
    using c [THEN conjunct2, THEN conjunct2, THEN conjunct1, rule_format, of h] by simp
  show "content (drv_enable_xip p enable h) = content h"
    using c [THEN conjunct2, THEN conjunct2, THEN conjunct2, THEN conjunct1, rule_format, of enable h] .
  show "drv_erase p addr len h = (0, h') \<Longrightarrow>
           content h' x = (if unat addr \<le> x \<and> x < unat addr + unat len then erased else content h x)"
    using c [THEN conjunct2, THEN conjunct2, THEN conjunct2, THEN conjunct2, THEN conjunct1,
        rule_format, where addr = addr and len = len and h = h and x = x] by simp
  show "drv_read p addr len h = (r, bytes, h') \<Longrightarrow> content h' = content h"
    using c [THEN conjunct2, THEN conjunct2, THEN conjunct2, THEN conjunct2, THEN conjunct2,
        THEN conjunct1, rule_format, of addr len h] by simp
  show "drv_read p addr len h = (0, bytes, h') \<Longrightarrow>
           take (unat len) bytes = map (content h) [unat addr ..< unat addr + unat len]"
    using c [THEN conjunct2, THEN conjunct2, THEN conjunct2, THEN conjunct2, THEN conjunct2,
        THEN conjunct2, THEN conjunct1, rule_format, of addr len h] by simp
  show "drv_write p addr len bs h = (r, h') \<Longrightarrow> \<not> (unat addr \<le> x \<and> x < unat addr + unat len) \<Longrightarrow>
           content h' x = content h x"
    using c [THEN conjunct2, THEN conjunct2, THEN conjunct2, THEN conjunct2, THEN conjunct2,
        THEN conjunct2, THEN conjunct2, rule_format, where addr = addr and len = len and bytes = bs and h = h and x = x] by simp
qed

lemma chain_content:
  assumes c: "flash_contract p content erased sector"
    and bsp: "drv_bsp_init p h = (r0, h0)"
    and init: "drv_init p h0 = (0, h1)"
    and S: "S = drv_get_erase_size p 0 h1"
    and erase: "drv_erase p S S h1 = (0, h2)"
    and read1: "drv_read p S PACKET_SIZE h2 = (0, d3, h3)"
    and wr: "drv_write p S PACKET_SIZE pattern h3 = (0, h4)"
    and read2: "drv_read p S PACKET_SIZE h4 = (0, d5, h5)"
    and same: "stored (take 64 d5) (stored (take 64 d3) (replicate 64 0)) = pattern"
  shows "S = sector"
    and "content (drv_enable_xip p True h5) x =
      (if unat S \<le> x \<and> x < unat S + 64 then pattern ! (x - unat S)
       else if unat S \<le> x \<and> x < unat S + unat S then erased
       else content h x)"
proof -
  note d = flash_contractD [OF c]
  show "S = sector"
    using S by (simp add: d(1))
  have c0: "content h0 = content h"
    using d(2) [OF bsp] .
  have c1: "content h1 = content h0"
    using d(3) [OF init] .
  have c2: "content h2 x = (if unat S \<le> x \<and> x < unat S + unat S then erased else content h1 x)"
    using d(5) [OF erase] .
  have c3: "content h3 = content h2"
    using d(6) [OF read1] .
  have c4: "\<not> (unat S \<le> x \<and> x < unat S + 64) \<Longrightarrow> content h4 x = content h3 x"
    using d(8) [OF wr, of x] by simp
  have c5: "content h5 = content h4"
    using d(6) [OF read2] .
  have d5: "take 64 d5 = map (content h4) [unat S ..< unat S + 64]"
    using d(7) [OF read2] by simp
  then have "length (take 64 d5) = 64"
    by simp
  then have "stored (take 64 d5) (stored (take 64 d3) (replicate 64 0)) = take 64 d5"
    by (intro stored_full) simp
  with same d5 have m: "map (content h4) [unat S ..< unat S + 64] = pattern"
    by simp
  have inside: "content h4 x = pattern ! (x - unat S)" if "unat S \<le> x \<and> x < unat S + 64"
  proof -
    from that have "x - unat S < 64"
      by linarith
    then have "map (content h4) [unat S ..< unat S + 64] ! (x - unat S) = content h4 (unat S + (x - unat S))"
      by simp
    with that show ?thesis
      by (simp add: m)
  qed
  have c6: "content (drv_enable_xip p True h5) = content h5"
    using d(4) .
  show "content (drv_enable_xip p True h5) x =
      (if unat S \<le> x \<and> x < unat S + 64 then pattern ! (x - unat S)
       else if unat S \<le> x \<and> x < unat S + unat S then erased
       else content h x)"
    using inside c4 by (simp add: c6 c5 c3 c2 c1 c0)
qed

lemma passed_content:
  assumes c: "flash_contract p content erased sector"
    and s: "s = final (main fuel p s0)" and log: "calls s0 = []"
    and passed: "Qspi_enable_xip True \<in> set (calls s)"
  shows "content (hw s) x =
      (if unat sector \<le> x \<and> x < unat sector + 64 then pattern ! (x - unat sector)
       else if unat sector \<le> x \<and> x < unat sector + unat sector then erased
       else content (hw s0) x)"
proof (cases rule: main_cases [of p s0])
  case (string_misplaced r0 h0 h1 S T h2 d3 h3 rx1 h4 d5 h5 sb)
  then show ?thesis
    using chain_content [OF c string_misplaced(1,3-9)] s by simp
next
  case (function_misplaced r0 h0 h1 S T h2 d3 h3 rx1 h4 d5 h5 sb)
  then show ?thesis
    using chain_content [OF c function_misplaced(1,3-9)] s by simp
next
  case (idle r0 h0 h1 S T h2 d3 h3 rx1 h4 d5 h5 sb)
  then show ?thesis
    using chain_content [OF c idle(1,3-9)] s final_idle_loop [OF refl, of fuel sb] by simp
qed (use s log passed in \<open>auto\<close>)

subsection \<open>Runs on the simulated board\<close>

lemmas sim_defs = sim_platform_def sim_boot_def sim_status_def sim_erase_def sim_read_def sim_write_def

lemmas run_simps = main_def wrappers check_status_fail check_address_fail check_address_ok
  init_buffers_main memcmp_status Let_def

lemma sim_run_read_back_fault:
  "\<exists>sb. (\<forall>fuel. main fuel (sim_platform 0xFF 64) (sim_boot (replicate 256 0) [0, 0, 0, 0, 7])
            = Running (status_failure ''Reading memory failed'' 7 sb))
     \<and> calls sb = [Cybsp_init 0, Enable_irq, Retarget_io_init, Gpio_init CYBSP_LED_STATE_OFF,
          Qspi_init 0, Qspi_get_erase_size 0 64, Qspi_get_size 256, Qspi_erase 64 64 0,
          Qspi_read 64 PACKET_SIZE (replicate 64 0xFF) 0,
          Qspi_write 64 PACKET_SIZE pattern 0,
          Qspi_read 64 PACKET_SIZE (replicate 64 0xFF) 7]"
  apply (rule exI)
  apply (intro conjI allI)
   apply (simp add: run_simps sim_defs stored_def CY_ASSERT_def CY_RSLT_SUCCESS_def)
  apply (simp add: sim_defs stored_def)
  done

lemmas sim_run_simps = run_simps sim_defs stored_def CY_ASSERT_def CY_RSLT_SUCCESS_def

lemma pattern_not_erased: "pattern \<noteq> replicate 64 0xFF"
proof
  assume "pattern = replicate 64 0xFF"
  then have "pattern ! 0 = replicate 64 (0xFF :: 8 word) ! 0"
    by simp
  then show False
    by (simp add: pattern_def)
qed

lemma sim_run_erase_fault:
  "\<exists>sb. (\<forall>fuel. main fuel (sim_platform 0xFF 64) (sim_boot (replicate 256 0) [0, 7])
            = Running (status_failure ''Erasing memory failed'' 7 sb))
     \<and> calls sb = [Cybsp_init 0, Enable_irq, Retarget_io_init, Gpio_init CYBSP_LED_STATE_OFF,
          Qspi_init 0, Qspi_get_erase_size 0 64, Qspi_get_size 256, Qspi_erase 64 64 7]"
  apply (rule exI)
  apply (intro conjI allI)
   apply (simp add: sim_run_simps)
  apply (simp add: sim_defs)
  done

lemma sim_run_first_read_fault:
  "\<exists>sb. (\<forall>fuel. main fuel (sim_platform 0xFF 64) (sim_boot (replicate 256 0) [0, 0, 7])
            = Running (status_failure ''Reading memory failed'' 7 sb))
     \<and> calls sb = [Cybsp_init 0, Enable_irq, Retarget_io_init, Gpio_init CYBSP_LED_STATE_OFF,
          Qspi_init 0, Qspi_get_erase_size 0 64, Qspi_get_size 256, Qspi_erase 64 64 0,
          Qspi_read 64 PACKET_SIZE (replicate 64 0) 7]"
  apply (rule exI)
  apply (intro conjI allI)
   apply (simp add: sim_run_simps)
  apply (simp add: sim_defs stored_def)
  done

lemma sim_run_mismatch:
  "\<exists>sb. (\<forall>fuel. main fuel ((sim_platform 0xFF 64)\<lparr>drv_write := (\<lambda>addr len bytes h. (0, h))\<rparr>)
              (sim_boot (replicate 256 0) [])
            = Running (status_failure
                ''Read data does not match with written data. Read/Write operation failed.''
                (word_of_int (memcmp pattern (replicate 64 0xFF) PACKET_SIZE)) sb))
     \<and> calls sb = [Cybsp_init 0, Enable_irq, Retarget_io_init, Gpio_init CYBSP_LED_STATE_OFF,
          Qspi_init 0, Qspi_get_erase_size 0 64, Qspi_get_size 256, Qspi_erase 64 64 0,
          Qspi_read 64 PACKET_SIZE (replicate 64 0xFF) 0,
          Qspi_write 64 PACKET_SIZE pattern 0,
          Qspi_read 64 PACKET_SIZE (replicate 64 0xFF) 0]"
  apply (rule exI)
  apply (intro conjI allI)
   apply (simp add: sim_run_simps pattern_not_erased)
  apply (simp add: sim_defs stored_def)
  done

lemma sim_run_passes:
  "length c = 256 \<Longrightarrow>
   \<exists>sb. (\<forall>fuel. main fuel (sim_platform e 64) (sim_boot c []) = idle_loop fuel sb)
     \<and> calls sb = [Cybsp_init 0, Enable_irq, Retarget_io_init, Gpio_init CYBSP_LED_STATE_OFF,
          Qspi_init 0, Qspi_get_erase_size 0 64, Qspi_get_size 256, Qspi_erase 64 64 0,
          Qspi_read 64 PACKET_SIZE (replicate 64 e) 0,
          Qspi_write 64 PACKET_SIZE pattern 0,
          Qspi_read 64 PACKET_SIZE pattern 0,
          Qspi_enable_xip True]
     \<and> hw sb = \<lparr>cells = take 64 c @ pattern @ drop 128 c, pending = []\<rparr>"
  apply (rule exI)
  apply (intro conjI allI)
    apply (simp add: sim_run_simps)
   apply (simp add: sim_defs stored_def)
  apply (simp add: sim_defs stored_def)
  done

lemma sim_status_cells [simp]: "cells (snd (sim_status h)) = cells h"
  by (simp add: sim_status_def split: list.splits)

lemma sim_content_status [simp]: "sim_content (snd (sim_status h)) = sim_content h"
  by (rule ext) (simp add: sim_content_def)

lemma take_drop_map_nth:
  "a + n \<le> length c \<Longrightarrow> take n (drop a c) = map ((!) c) [a ..< a + n]"
  by (rule nth_equalityI) auto

lemma sim_contract: "flash_contract (sim_platform e sec) sim_content e sec"
  unfolding flash_contract_def
proof (intro conjI allI impI)
  fix addr len :: "32 word" and h :: sim_hw and x :: nat
  assume "fst (drv_erase (sim_platform e sec) addr len h) = 0"
  then show "sim_content (snd (drv_erase (sim_platform e sec) addr len h)) x =
      (if unat addr \<le> x \<and> x < unat addr + unat len then e else sim_content h x)"
    by (auto simp add: sim_platform_def sim_erase_def sim_content_def split_def Let_def nth_append
        split: if_splits)
next
  fix addr len :: "32 word" and h :: sim_hw
  show "sim_content (snd (snd (drv_read (sim_platform e sec) addr len h))) = sim_content h"
    by (simp add: sim_platform_def sim_read_def split_def Let_def)
next
  fix addr len :: "32 word" and h :: sim_hw
  assume "fst (drv_read (sim_platform e sec) addr len h) = 0"
  then show "take (unat len) (fst (snd (drv_read (sim_platform e sec) addr len h))) =
      map (sim_content h) [unat addr ..< unat addr + unat len]"
    by (auto simp add: sim_platform_def sim_read_def split_def Let_def take_drop_map_nth sim_content_def
        split: if_splits)
next
  fix addr len :: "32 word" and bytes :: "8 word list" and h :: sim_hw and x :: nat
  assume "\<not> (unat addr \<le> x \<and> x < unat addr + unat len)"
  then show "sim_content (snd (drv_write (sim_platform e sec) addr len bytes h)) x = sim_content h x"
    by (auto simp add: sim_platform_def sim_write_def sim_content_def split_def Let_def nth_append
        min_def split: if_splits)
qed (simp_all add: sim_platform_def)

lemma fmt_u_256: "fmt_u 256 = ''256''"
  by (simp add: fmt_u_def digits_of.simps digit_char_def)

lemma fmt_u_64: "fmt_u 64 = ''64''"
  by (simp add: fmt_u_def digits_of.simps digit_char_def)

lemma erase_fault_block:
  "status_failure_text ''Erasing memory failed'' 0x1234ABCD
     = ''\<newline>================================================================================\<newline>''
       @ ''\<newline>FAIL: Erasing memory failed\<newline>''
       @ ''Error Code: 0x1234ABCD\<newline>''
       @ ''\<newline>================================================================================\<newline>''"
  by (simp add: status_failure_text_def rule_line_def fmt_08lX_def digits_of.simps digit_char_def
      zero_pad_def)

lemma mismatch_code: "(word_of_int (memcmp pattern (replicate 64 0xFF) PACKET_SIZE) :: 32 word) = 0xFFFFFF01"
proof -
  have p: "take 64 pattern = 0 # map of_nat [1 ..< 64]"
    by (simp add: pattern_def upt_conv_Cons)
  have r: "take 64 (replicate 64 (0xFF :: 8 word)) = 0xFF # replicate 63 0xFF"
    by (simp add: numeral_eq_Suc)
  have "memcmp pattern (replicate 64 0xFF) PACKET_SIZE
      = memcmp_bytes (0 # map of_nat [1 ..< 64]) (0xFF # replicate 63 0xFF)"
    by (simp only: memcmp_def unat_PACKET_SIZE p r)
  also have "\<dots> = - 255"
    by simp
  finally show ?thesis
    by simp
qed

lemma mismatch_block:
  "status_failure_text
       ''Read data does not match with written data. Read/Write operation failed.'' 0xFFFFFF01
     = ''\<newline>================================================================================\<newline>''
       @ ''\<newline>FAIL: Read data does not match with written data. Read/Write operation failed.\<newline>''
       @ ''Error Code: 0xFFFFFF01\<newline>''
       @ ''\<newline>================================================================================\<newline>''"
  by (simp add: status_failure_text_def rule_line_def fmt_08lX_def digits_of.simps digit_char_def
      zero_pad_def)

lemma sim_run_erase_fault_console:
  "\<exists>sb. (\<forall>fuel. main fuel (sim_platform 0xFF 64) (sim_boot (replicate 256 0) [0, 0x1234ABCD])
            = Running (status_failure ''Erasing memory failed'' 0x1234ABCD sb))
     \<and> calls sb = [Cybsp_init 0, Enable_irq, Retarget_io_init, Gpio_init CYBSP_LED_STATE_OFF,
          Qspi_init 0, Qspi_get_erase_size 0 64, Qspi_get_size 256, Qspi_erase 64 64 0x1234ABCD]
     \<and> console sb = CHR 0x1B # ''[2J'' @ CHR 0x1B # ''[;H''
          @ ''*************** PSoC 6 MCU: External Flash Access in XIP Mode ***************\<newline>\<newline>''
          @ ''\<newline>1. Total Flash Size: 256 bytes.\<newline>''
          @ ''\<newline>1. Erasing 64 bytes of memory.\<newline>''"
  apply (rule exI)
  apply (intro conjI allI)
    apply (simp add: sim_run_simps)
   apply (simp add: sim_defs)
  apply (simp add: sim_defs fmt_u_256 fmt_u_64)
  done

section \<open>The claims\<close>

text \<open>
  Throughout, a run is \<open>main fuel p s0\<close> for a platform \<open>p\<close>, a state \<open>s0\<close> at reset
  with an empty call log, and a clock value \<open>fuel\<close>; \<open>final\<close> reads the state the run
  is in when the clock stops. A run is parked in a state \<open>s\<close> when it is \<open>Running s\<close>
  for every clock value: it never returns and nothing changes any more.
\<close>

text \<open>
  C1. For every run, if any driver call (initialisation, erase, read, write) returned a
  nonzero status, or the bytes handed to the write and the buffer read back afterwards
  differ somewhere in the 64 bytes of the packet, the program is parked in a failure
  state: the LED is on, switching it on was the last call made, and the run is
  \<open>Running\<close> in that same state for every clock value. The console ends with the
  diagnostic block of the check that failed:
  \<^item> for a driver call with a nonzero status, the block carries the message of the check
    after that call and, as error code, the status the call returned; the call is the
    last one made before the LED write;
  \<^item> when no driver call failed, the block carries the message of the comparison and, as
    error code, the nonzero result of \<^verbatim>\<open>memcmp\<close> on the written bytes and the buffer
    read back, converted to 32 bits.
\<close>

theorem self_test_failure_is_terminal:
  assumes "s = final (main fuel p s0)" and "calls s0 = []"
    and "any_driver_call_failed (calls s) \<or> compare_found_mismatch (calls s)"
  shows "(\<forall>n. main n p s0 = Running s)
     \<and> led s = CYBSP_LED_STATE_ON
     \<and> last (calls s) = Gpio_write CYBSP_LED_STATE_ON
     \<and> (\<exists>before message code. code \<noteq> 0 \<and> s = status_failure message code before
           \<and> console s = console before @ status_failure_text message code)
     \<and> (\<forall>c \<in> set (calls s). driver_status c \<noteq> 0 \<longrightarrow>
           (\<exists>before. s = status_failure (check_message c) (driver_status c) before
              \<and> calls before \<noteq> [] \<and> last (calls before) = c
              \<and> console s = console before
                    @ status_failure_text (check_message c) (driver_status c)))
     \<and> (\<not> any_driver_call_failed (calls s) \<longrightarrow>
           (\<exists>bytes buf before. post_write_read (calls s) = Some (bytes, buf, 0)
              \<and> (word_of_int (memcmp bytes buf PACKET_SIZE) :: 32 word) \<noteq> 0
              \<and> s = status_failure
                    ''Read data does not match with written data. Read/Write operation failed.''
                    (word_of_int (memcmp bytes buf PACKET_SIZE)) before
              \<and> console s = console before
                    @ status_failure_text
                        ''Read data does not match with written data. Read/Write operation failed.''
                        (word_of_int (memcmp bytes buf PACKET_SIZE))))"
proof (cases rule: main_cases [of p s0])
  case (idle r0 h0 h1 S T h2 d3 h3 rx1 h4 d5 h5 sb)
  with assms show ?thesis
    using idle_calls_quiet [of _ fuel] final_idle_loop [OF refl, of fuel sb]
    by (auto simp add: any_driver_call_failed_def compare_found_mismatch_def list_ex_iff)
qed (use assms in \<open>auto simp add: any_driver_call_failed_def compare_found_mismatch_def list_ex_iff\<close>)

theorem self_test_failure_is_terminal_witness:
  "any_driver_call_failed
       (calls (final (main 0 (sim_platform 0xFF 64) (sim_boot (replicate 256 0) [0, 0x1234ABCD]))))
   \<and> Qspi_erase 64 64 0x1234ABCD
       \<in> set (calls (final (main 0 (sim_platform 0xFF 64) (sim_boot (replicate 256 0) [0, 0x1234ABCD]))))
   \<and> driver_status (Qspi_erase 64 64 0x1234ABCD) \<noteq> 0
   \<and> console (final (main 0 (sim_platform 0xFF 64) (sim_boot (replicate 256 0) [0, 0x1234ABCD])))
       = CHR 0x1B # ''[2J'' @ CHR 0x1B # ''[;H''
          @ ''*************** PSoC 6 MCU: External Flash Access in XIP Mode ***************\<newline>\<newline>''
          @ ''\<newline>1. Total Flash Size: 256 bytes.\<newline>''
          @ ''\<newline>1. Erasing 64 bytes of memory.\<newline>''
          @ ''\<newline>================================================================================\<newline>''
          @ ''\<newline>FAIL: Erasing memory failed\<newline>''
          @ ''Error Code: 0x1234ABCD\<newline>''
          @ ''\<newline>================================================================================\<newline>''
   \<and> (\<forall>n. main n (sim_platform 0xFF 64) (sim_boot (replicate 256 0) [0, 0x1234ABCD])
          = Running (final (main 0 (sim_platform 0xFF 64) (sim_boot (replicate 256 0) [0, 0x1234ABCD]))))
   \<and> led (final (main 0 (sim_platform 0xFF 64) (sim_boot (replicate 256 0) [0, 0x1234ABCD])))
       = CYBSP_LED_STATE_ON
   \<and> compare_found_mismatch
         (calls (final (main 0 ((sim_platform 0xFF 64)\<lparr>drv_write := (\<lambda>addr len bytes h. (0, h))\<rparr>) (sim_boot (replicate 256 0) []))))
   \<and> \<not> any_driver_call_failed
         (calls (final (main 0 ((sim_platform 0xFF 64)\<lparr>drv_write := (\<lambda>addr len bytes h. (0, h))\<rparr>) (sim_boot (replicate 256 0) []))))
   \<and> suffix
        (''\<newline>================================================================================\<newline>''
          @ ''\<newline>FAIL: Read data does not match with written data. Read/Write operation failed.\<newline>''
          @ ''Error Code: 0xFFFFFF01\<newline>''
          @ ''\<newline>================================================================================\<newline>'')
        (console (final (main 0 ((sim_platform 0xFF 64)\<lparr>drv_write := (\<lambda>addr len bytes h. (0, h))\<rparr>) (sim_boot (replicate 256 0) []))))
   \<and> (\<forall>n. main n ((sim_platform 0xFF 64)\<lparr>drv_write := (\<lambda>addr len bytes h. (0, h))\<rparr>) (sim_boot (replicate 256 0) [])
          = Running (final (main 0 ((sim_platform 0xFF 64)\<lparr>drv_write := (\<lambda>addr len bytes h. (0, h))\<rparr>) (sim_boot (replicate 256 0) []))))
   \<and> led (final (main 0 ((sim_platform 0xFF 64)\<lparr>drv_write := (\<lambda>addr len bytes h. (0, h))\<rparr>) (sim_boot (replicate 256 0) [])))
         = CYBSP_LED_STATE_ON"
proof -
  let ?p = "sim_platform 0xFF 64"
  let ?b = "sim_boot (replicate 256 0) [0, 0x1234ABCD]"
  let ?s = "final (main 0 ?p ?b)"
  obtain sb where run: "\<forall>fuel. main fuel ?p ?b
        = Running (status_failure ''Erasing memory failed'' 0x1234ABCD sb)"
    and cs: "calls sb = [Cybsp_init 0, Enable_irq, Retarget_io_init, Gpio_init CYBSP_LED_STATE_OFF,
          Qspi_init 0, Qspi_get_erase_size 0 64, Qspi_get_size 256, Qspi_erase 64 64 0x1234ABCD]"
    and con: "console sb = CHR 0x1B # ''[2J'' @ CHR 0x1B # ''[;H''
          @ ''*************** PSoC 6 MCU: External Flash Access in XIP Mode ***************\<newline>\<newline>''
          @ ''\<newline>1. Total Flash Size: 256 bytes.\<newline>''
          @ ''\<newline>1. Erasing 64 bytes of memory.\<newline>''"
    using sim_run_erase_fault_console by blast
  have failed: "any_driver_call_failed (calls ?s)"
    by (simp add: run cs any_driver_call_failed_def)
  have logged: "Qspi_erase 64 64 0x1234ABCD \<in> set (calls ?s)"
    by (simp add: run cs)
  have nonzero: "driver_status (Qspi_erase 64 64 0x1234ABCD) \<noteq> 0"
    by simp
  have fresh: "calls ?b = []"
    by (simp add: sim_boot_def)
  note t1 = self_test_failure_is_terminal [OF refl fresh disjI1 [OF failed]]
  from t1 logged nonzero obtain before where
    s: "?s = status_failure (check_message (Qspi_erase 64 64 0x1234ABCD))
          (driver_status (Qspi_erase 64 64 0x1234ABCD)) before"
    and shown: "console ?s = console before
          @ status_failure_text (check_message (Qspi_erase 64 64 0x1234ABCD))
              (driver_status (Qspi_erase 64 64 0x1234ABCD))"
    by blast
  have "console ?s = console sb @ status_failure_text ''Erasing memory failed'' 0x1234ABCD"
    by (simp add: run)
  with shown have "console before = console sb"
    by simp
  with shown have "console ?s = console sb @ status_failure_text ''Erasing memory failed'' 0x1234ABCD"
    by simp
  then have printed: "console ?s = CHR 0x1B # ''[2J'' @ CHR 0x1B # ''[;H''
          @ ''*************** PSoC 6 MCU: External Flash Access in XIP Mode ***************\<newline>\<newline>''
          @ ''\<newline>1. Total Flash Size: 256 bytes.\<newline>''
          @ ''\<newline>1. Erasing 64 bytes of memory.\<newline>''
          @ ''\<newline>================================================================================\<newline>''
          @ ''\<newline>FAIL: Erasing memory failed\<newline>''
          @ ''Error Code: 0x1234ABCD\<newline>''
          @ ''\<newline>================================================================================\<newline>''"
    by (simp only: con erase_fault_block append_assoc append_Cons)
  let ?p' = "?p\<lparr>drv_write := (\<lambda>addr len bytes h. (0, h))\<rparr>"
  let ?b' = "sim_boot (replicate 256 0) []"
  let ?s' = "final (main 0 ?p' ?b')"
  obtain sb' where run': "\<forall>fuel. main fuel ?p' ?b' = Running (status_failure
        ''Read data does not match with written data. Read/Write operation failed.''
        (word_of_int (memcmp pattern (replicate 64 0xFF) PACKET_SIZE)) sb')"
    and cs': "calls sb' = [Cybsp_init 0, Enable_irq, Retarget_io_init, Gpio_init CYBSP_LED_STATE_OFF,
          Qspi_init 0, Qspi_get_erase_size 0 64, Qspi_get_size 256, Qspi_erase 64 64 0,
          Qspi_read 64 PACKET_SIZE (replicate 64 0xFF) 0,
          Qspi_write 64 PACKET_SIZE pattern 0,
          Qspi_read 64 PACKET_SIZE (replicate 64 0xFF) 0]"
    using sim_run_mismatch by blast
  have "pattern ! 0 \<noteq> replicate 64 (0xFF :: 8 word) ! 0"
    by (simp add: pattern_def)
  then have differ: "compare_found_mismatch (calls ?s')"
    by (auto simp add: run' cs' compare_found_mismatch_def list_ex_iff intro!: bexI [of _ 0])
  have quiet: "\<not> any_driver_call_failed (calls ?s')"
    by (simp add: run' cs' any_driver_call_failed_def)
  have fresh': "calls ?b' = []"
    by (simp add: sim_boot_def)
  note t2 = self_test_failure_is_terminal [OF refl fresh' disjI2 [OF differ]]
  have "console ?s' = console sb' @ status_failure_text
        ''Read data does not match with written data. Read/Write operation failed.'' 0xFFFFFF01"
    by (simp add: run' mismatch_code)
  then have printed': "suffix
        (''\<newline>================================================================================\<newline>''
          @ ''\<newline>FAIL: Read data does not match with written data. Read/Write operation failed.\<newline>''
          @ ''Error Code: 0xFFFFFF01\<newline>''
          @ ''\<newline>================================================================================\<newline>'')
        (console ?s')"
    by (simp only: mismatch_block suffix_appendI suffix_order.refl)
  from t1 have parked: "\<forall>n. main n ?p ?b = Running ?s" and lit: "led ?s = CYBSP_LED_STATE_ON"
    by blast+
  from t2 have parked': "\<forall>n. main n ?p' ?b' = Running ?s'" and lit': "led ?s' = CYBSP_LED_STATE_ON"
    by blast+
  show ?thesis
    by (intro conjI) (fact failed logged nonzero printed parked lit differ quiet printed' parked' lit')+
qed

text \<open>
  C2. The loop that initialises the transfer buffers leaves, in a 64-byte transmit array,
  the byte \<open>i mod 256\<close> at every index \<open>i\<close> below 64 (and zeroes the receive array),
  whatever the arrays held before; and in every run, every write call the program makes
  passes exactly these 64 bytes.
\<close>

theorem pattern_buffer_seeded:
  "(length tx = 64 \<and> length rx = 64 \<longrightarrow>
      length (fst (init_buffers_loop 0 (tx, rx))) = 64
      \<and> (\<forall>i<64. unat (fst (init_buffers_loop 0 (tx, rx)) ! i) = i mod 256)
      \<and> snd (init_buffers_loop 0 (tx, rx)) = replicate 64 0)
   \<and> (s = final (main fuel p s0) \<and> calls s0 = [] \<and> Qspi_write addr len bytes st \<in> set (calls s) \<longrightarrow>
      len = PACKET_SIZE \<and> length bytes = 64 \<and> (\<forall>i<64. unat (bytes ! i) = i mod 256))"
proof (intro conjI impI)
  assume "length tx = 64 \<and> length rx = 64"
  then have eq: "init_buffers_loop 0 (tx, rx) = (pattern, replicate 64 0)"
    by (simp add: init_buffers_loop_from pattern_def)
  show "length (fst (init_buffers_loop 0 (tx, rx))) = 64"
    by (simp add: eq)
  show "\<forall>i<64. unat (fst (init_buffers_loop 0 (tx, rx)) ! i) = i mod 256"
    by (simp add: eq unat_pattern_nth)
  show "snd (init_buffers_loop 0 (tx, rx)) = replicate 64 0"
    by (simp add: eq)
next
  assume a: "s = final (main fuel p s0) \<and> calls s0 = [] \<and> Qspi_write addr len bytes st \<in> set (calls s)"
  have "len = PACKET_SIZE \<and> bytes = pattern"
  proof (cases rule: main_cases [of p s0])
    case (idle r0 h0 h1 S T h2 d3 h3 rx1 h4 d5 h5 sb)
    with a show ?thesis
      using final_idle_loop [OF refl, of fuel sb]
        idle_calls_no_member [of "Qspi_write addr len bytes st" fuel]
      by auto
  qed (use a in \<open>auto\<close>)
  then show "len = PACKET_SIZE" "length bytes = 64" "\<forall>i<64. unat (bytes ! i) = i mod 256"
    by (simp_all add: unat_pattern_nth)
qed


theorem pattern_buffer_seeded_witness:
  "length (replicate 64 (0xAA :: 8 word)) = 64 \<and> length (replicate 64 (0x55 :: 8 word)) = 64
   \<and> unat (fst (init_buffers_loop 0 (replicate 64 0xAA, replicate 64 0x55)) ! 63) = 63 mod 256
   \<and> snd (init_buffers_loop 0 (replicate 64 0xAA, replicate 64 0x55)) = replicate 64 0
   \<and> Qspi_write 64 PACKET_SIZE pattern 0
         \<in> set (calls (final (main 0 (sim_platform 0xFF 64) (sim_boot (replicate 256 0) [0, 0, 0, 0, 7]))))
   \<and> unat (pattern ! 63) = 63 mod 256"
proof -
  let ?p = "sim_platform 0xFF 64"
  let ?b = "sim_boot (replicate 256 0) [0, 0, 0, 0, 7]"
  let ?s = "final (main 0 ?p ?b)"
  obtain sb where run: "\<forall>fuel. main fuel ?p ?b = Running (status_failure ''Reading memory failed'' 7 sb)"
    and cs: "calls sb = [Cybsp_init 0, Enable_irq, Retarget_io_init, Gpio_init CYBSP_LED_STATE_OFF,
          Qspi_init 0, Qspi_get_erase_size 0 64, Qspi_get_size 256, Qspi_erase 64 64 0,
          Qspi_read 64 PACKET_SIZE (replicate 64 0xFF) 0,
          Qspi_write 64 PACKET_SIZE pattern 0,
          Qspi_read 64 PACKET_SIZE (replicate 64 0xFF) 7]"
    using sim_run_read_back_fault by blast
  have written: "Qspi_write 64 PACKET_SIZE pattern 0 \<in> set (calls ?s)"
    by (simp add: run cs)
  have fresh: "calls ?b = []"
    by (simp add: sim_boot_def)
  have lens: "length (replicate 64 (0xAA :: 8 word)) = 64 \<and> length (replicate 64 (0x55 :: 8 word)) = 64"
    by simp
  note t = pattern_buffer_seeded [of "replicate 64 0xAA" "replicate 64 0x55" ?s 0 ?p ?b
      64 PACKET_SIZE pattern 0]
  have i: "(63 :: nat) < 64"
    by simp
  from t lens written fresh i show ?thesis
    by blast
qed

text \<open>
  C3. The placement check accepts an address equal to the configured base address of the
  flash window, and it ends in the failure state (never returning, with the placement
  diagnostic printed and the LED on) exactly when the address is strictly below the base
  address.
\<close>

theorem check_address_lower_bound:
  "check_address fuel p message (baseAddress p) s = Returned s
   \<and> ((\<exists>s'. check_address fuel p message addr s = Running s') \<longleftrightarrow> addr < baseAddress p)
   \<and> (addr < baseAddress p \<longrightarrow>
        check_address fuel p message addr s = Running (placement_failure message addr s))"
  by (cases "addr < baseAddress p") (simp_all add: check_address_fail check_address_ok not_less)


theorem check_address_lower_bound_witness:
  "(0x10000000 :: 32 word) < baseAddress (sim_platform 0xFF 64)
   \<and> check_address 0 (sim_platform 0xFF 64) ''String not found in external memory.'' 0x10000000
         (sim_boot [] [])
       = Running (placement_failure ''String not found in external memory.'' 0x10000000
           (sim_boot [] []))
   \<and> check_address 0 (sim_platform 0xFF 64) ''String not found in external memory.''
         (baseAddress (sim_platform 0xFF 64)) (sim_boot [] [])
       = Returned (sim_boot [] [])"
proof -
  have below: "(0x10000000 :: 32 word) < baseAddress (sim_platform 0xFF 64)"
    by (simp add: sim_platform_def)
  note t = check_address_lower_bound [of 0 "sim_platform 0xFF 64"
      "''String not found in external memory.''" "sim_boot [] []" "0x10000000"]
  from t below show ?thesis
    by blast
qed

text \<open>
  C4. Once a check has failed (the failure paths are the only code that writes the LED),
  nothing further executes: the run is parked, the LED write is the last call in the log
  and the LED is on. In particular, when the read that follows the write reports a nonzero
  status, the XIP switch is never called and the LED is on, at every clock value.
\<close>

theorem failure_halts_forward_progress:
  assumes "s = final (main fuel p s0)" and "calls s0 = []"
  shows "(Gpio_write CYBSP_LED_STATE_ON \<in> set (calls s) \<longrightarrow>
            (\<forall>n. main n p s0 = Running s)
            \<and> last (calls s) = Gpio_write CYBSP_LED_STATE_ON
            \<and> led s = CYBSP_LED_STATE_ON)
     \<and> (\<forall>bytes buf st. post_write_read (calls s) = Some (bytes, buf, st) \<and> st \<noteq> 0 \<longrightarrow>
            (\<forall>enable. Qspi_enable_xip enable \<notin> set (calls s))
            \<and> led s = CYBSP_LED_STATE_ON
            \<and> (\<forall>n. main n p s0 = Running s))"
proof (cases rule: main_cases [of p s0])
  case (idle r0 h0 h1 S T h2 d3 h3 rx1 h4 d5 h5 sb)
  with assms show ?thesis
    using idle_calls_no_member [of "Gpio_write CYBSP_LED_STATE_ON" fuel]
      final_idle_loop [OF refl, of fuel sb]
    by simp
qed (use assms in \<open>auto\<close>)


theorem failure_halts_forward_progress_witness:
  "post_write_read (calls (final (main 0 (sim_platform 0xFF 64) (sim_boot (replicate 256 0) [0, 0, 0, 0, 7]))))
       = Some (pattern, replicate 64 0xFF, 7)
   \<and> (7 :: 32 word) \<noteq> 0
   \<and> Gpio_write CYBSP_LED_STATE_ON
         \<in> set (calls (final (main 0 (sim_platform 0xFF 64) (sim_boot (replicate 256 0) [0, 0, 0, 0, 7]))))
   \<and> Qspi_enable_xip True
         \<notin> set (calls (final (main 0 (sim_platform 0xFF 64) (sim_boot (replicate 256 0) [0, 0, 0, 0, 7]))))
   \<and> led (final (main 0 (sim_platform 0xFF 64) (sim_boot (replicate 256 0) [0, 0, 0, 0, 7]))) = CYBSP_LED_STATE_ON
   \<and> (\<forall>n. main n (sim_platform 0xFF 64) (sim_boot (replicate 256 0) [0, 0, 0, 0, 7])
          = Running (final (main 0 (sim_platform 0xFF 64) (sim_boot (replicate 256 0) [0, 0, 0, 0, 7]))))"
proof -
  let ?p = "sim_platform 0xFF 64"
  let ?b = "sim_boot (replicate 256 0) [0, 0, 0, 0, 7]"
  let ?s = "final (main 0 ?p ?b)"
  obtain sb where run: "\<forall>fuel. main fuel ?p ?b = Running (status_failure ''Reading memory failed'' 7 sb)"
    and cs: "calls sb = [Cybsp_init 0, Enable_irq, Retarget_io_init, Gpio_init CYBSP_LED_STATE_OFF,
          Qspi_init 0, Qspi_get_erase_size 0 64, Qspi_get_size 256, Qspi_erase 64 64 0,
          Qspi_read 64 PACKET_SIZE (replicate 64 0xFF) 0,
          Qspi_write 64 PACKET_SIZE pattern 0,
          Qspi_read 64 PACKET_SIZE (replicate 64 0xFF) 7]"
    using sim_run_read_back_fault by blast
  have rb: "post_write_read (calls ?s) = Some (pattern, replicate 64 0xFF, 7)"
    by (simp add: run cs)
  have lit: "Gpio_write CYBSP_LED_STATE_ON \<in> set (calls ?s)"
    by (simp add: run cs)
  have nonzero: "(7 :: 32 word) \<noteq> 0"
    by simp
  have fresh: "calls ?b = []"
    by (simp add: sim_boot_def)
  note t = failure_halts_forward_progress [OF refl fresh, of 0 ?p]
  from t rb lit nonzero show ?thesis
    by blast
qed

text \<open>
  C5. In every run the address of every erase, read and write call is the erase-sector
  size the driver reported for the one query the program makes (at address 0): the start
  of the second sector. The erase covers exactly one sector size; its address is a
  multiple of the sector size, and it is not zero whenever the sector size is not zero.
\<close>

theorem target_address_is_one_sector:
  assumes "s = final (main fuel p s0)" and "calls s0 = []"
  shows "(\<forall>addr len st. Qspi_erase addr len st \<in> set (calls s) \<longrightarrow>
            Qspi_get_erase_size 0 addr \<in> set (calls s) \<and> len = addr)
     \<and> (\<forall>addr len buf st. Qspi_read addr len buf st \<in> set (calls s) \<longrightarrow>
            Qspi_get_erase_size 0 addr \<in> set (calls s))
     \<and> (\<forall>addr len bytes st. Qspi_write addr len bytes st \<in> set (calls s) \<longrightarrow>
            Qspi_get_erase_size 0 addr \<in> set (calls s))
     \<and> (\<forall>q sector q' sector'. Qspi_get_erase_size q sector \<in> set (calls s)
            \<and> Qspi_get_erase_size q' sector' \<in> set (calls s) \<longrightarrow> q = 0 \<and> q' = 0 \<and> sector' = sector)
     \<and> (\<forall>sector addr len st. Qspi_get_erase_size 0 sector \<in> set (calls s)
            \<and> Qspi_erase addr len st \<in> set (calls s) \<longrightarrow>
            addr = sector \<and> unat sector dvd unat addr \<and> (sector \<noteq> 0 \<longrightarrow> addr \<noteq> 0))"
proof (cases rule: main_cases [of p s0])
  case (idle r0 h0 h1 S T h2 d3 h3 rx1 h4 d5 h5 sb)
  have "c \<in> set (concat (replicate fuel [Gpio_toggle, Delay_ms LED_TOGGLE_DELAY_MSEC])) \<Longrightarrow>
      c = Gpio_toggle \<or> c = Delay_ms LED_TOGGLE_DELAY_MSEC" for c
    using set_idle_calls [of fuel] by auto
  with idle assms show ?thesis
    using final_idle_loop [OF refl, of fuel sb]
    by auto
qed (use assms in \<open>auto\<close>)


theorem target_address_is_one_sector_witness:
  "Qspi_get_erase_size 0 64
       \<in> set (calls (final (main 0 (sim_platform 0xFF 64) (sim_boot (replicate 256 0) [0, 7]))))
   \<and> Qspi_erase 64 64 7
       \<in> set (calls (final (main 0 (sim_platform 0xFF 64) (sim_boot (replicate 256 0) [0, 7]))))
   \<and> (64 :: 32 word) \<noteq> 0
   \<and> unat (64 :: 32 word) dvd unat (64 :: 32 word)"
proof -
  let ?p = "sim_platform 0xFF 64"
  let ?b = "sim_boot (replicate 256 0) [0, 7]"
  let ?s = "final (main 0 ?p ?b)"
  obtain sb where run: "\<forall>fuel. main fuel ?p ?b = Running (status_failure ''Erasing memory failed'' 7 sb)"
    and cs: "calls sb = [Cybsp_init 0, Enable_irq, Retarget_io_init, Gpio_init CYBSP_LED_STATE_OFF,
          Qspi_init 0, Qspi_get_erase_size 0 64, Qspi_get_size 256, Qspi_erase 64 64 7]"
    using sim_run_erase_fault by blast
  have query: "Qspi_get_erase_size 0 64 \<in> set (calls ?s)"
    by (simp add: run cs)
  have erase: "Qspi_erase 64 64 7 \<in> set (calls ?s)"
    by (simp add: run cs)
  have fresh: "calls ?b = []"
    by (simp add: sim_boot_def)
  note t = target_address_is_one_sector [OF refl fresh, of 0 ?p]
  have "(64 :: 32 word) \<noteq> 0"
    by simp
  with t query erase show ?thesis
    by blast
qed

text \<open>
  C6. For a driver that keeps the flash contract: when a run passes the self-test (it
  reaches the XIP switch) and a second run, started from any hardware state holding the
  flash content the first run left, passes it too, the flash content after the second run
  is the content after the first. That content is the pattern in the 64 bytes at the
  target address, the erased value in the rest of the target sector, and the content
  before the first run everywhere else.
\<close>

theorem self_test_twice_same_content:
  assumes "flash_contract p content erased sector"
    and "s1 = final (main fuel1 p s0)" and "calls s0 = []"
    and "Qspi_enable_xip True \<in> set (calls s1)"
    and "s2 = final (main fuel2 p s0')" and "calls s0' = []"
    and "content (hw s0') = content (hw s1)"
    and "Qspi_enable_xip True \<in> set (calls s2)"
  shows "content (hw s2) = content (hw s1)
     \<and> (\<forall>x. content (hw s1) x =
          (if unat sector \<le> x \<and> x < unat sector + 64 then pattern ! (x - unat sector)
           else if unat sector \<le> x \<and> x < unat sector + unat sector then erased
           else content (hw s0) x))"
proof -
  have "content (hw s2) x = content (hw s1) x" for x
    using passed_content [OF assms(1) assms(2,3,4), of x]
      passed_content [OF assms(1) assms(5,6,8), of x] assms(7)
    by simp
  then show ?thesis
    using passed_content [OF assms(1) assms(2,3,4)] by auto
qed


theorem self_test_twice_same_content_witness:
  "flash_contract (sim_platform 0xFF 64) sim_content 0xFF 64
   \<and> Qspi_enable_xip True \<in> set (calls (final (main 0 (sim_platform 0xFF 64) (sim_boot (replicate 256 0) []))))
   \<and> sim_content (hw (sim_boot (replicate 64 0 @ pattern @ replicate 128 0) []))
       = sim_content (hw (final (main 0 (sim_platform 0xFF 64) (sim_boot (replicate 256 0) []))))
   \<and> Qspi_enable_xip True
       \<in> set (calls (final (main 0 (sim_platform 0xFF 64)
             (sim_boot (replicate 64 0 @ pattern @ replicate 128 0) []))))
   \<and> sim_content (hw (final (main 0 (sim_platform 0xFF 64)
             (sim_boot (replicate 64 0 @ pattern @ replicate 128 0) []))))
       = sim_content (hw (final (main 0 (sim_platform 0xFF 64) (sim_boot (replicate 256 0) []))))"
proof -
  let ?p = "sim_platform 0xFF 64"
  let ?b = "sim_boot (replicate 256 0) []"
  let ?b' = "sim_boot (replicate 64 0 @ pattern @ replicate 128 0) []"
  let ?s1 = "final (main 0 ?p ?b)"
  let ?s2 = "final (main 0 ?p ?b')"
  have c: "flash_contract ?p sim_content 0xFF 64"
    by (rule sim_contract)
  obtain sb where run: "\<forall>fuel. main fuel ?p ?b = idle_loop fuel sb"
    and cs: "calls sb = [Cybsp_init 0, Enable_irq, Retarget_io_init, Gpio_init CYBSP_LED_STATE_OFF,
          Qspi_init 0, Qspi_get_erase_size 0 64, Qspi_get_size 256, Qspi_erase 64 64 0,
          Qspi_read 64 PACKET_SIZE (replicate 64 0xFF) 0,
          Qspi_write 64 PACKET_SIZE pattern 0,
          Qspi_read 64 PACKET_SIZE pattern 0,
          Qspi_enable_xip True]"
    and h: "hw sb = \<lparr>cells = take 64 (replicate 256 0) @ pattern @ drop 128 (replicate 256 0),
          pending = []\<rparr>"
    using sim_run_passes [of "replicate 256 0" "0xFF"] by auto
  obtain sb' where run': "\<forall>fuel. main fuel ?p ?b' = idle_loop fuel sb'"
    and cs': "calls sb' = [Cybsp_init 0, Enable_irq, Retarget_io_init, Gpio_init CYBSP_LED_STATE_OFF,
          Qspi_init 0, Qspi_get_erase_size 0 64, Qspi_get_size 256, Qspi_erase 64 64 0,
          Qspi_read 64 PACKET_SIZE (replicate 64 0xFF) 0,
          Qspi_write 64 PACKET_SIZE pattern 0,
          Qspi_read 64 PACKET_SIZE pattern 0,
          Qspi_enable_xip True]"
    using sim_run_passes [of "replicate 64 0 @ pattern @ replicate 128 0" "0xFF"]
    by auto
  have passed1: "Qspi_enable_xip True \<in> set (calls ?s1)"
    by (simp add: run cs)
  have passed2: "Qspi_enable_xip True \<in> set (calls ?s2)"
    by (simp add: run' cs')
  have "hw ?s1 = \<lparr>cells = replicate 64 0 @ pattern @ replicate 128 0, pending = []\<rparr>"
    by (simp add: run h)
  moreover have "hw ?b' = \<lparr>cells = replicate 64 0 @ pattern @ replicate 128 0, pending = []\<rparr>"
    by (simp add: sim_boot_def)
  ultimately have carried: "sim_content (hw ?b') = sim_content (hw ?s1)"
    by (simp only:)
  have fresh: "calls ?b = []" "calls ?b' = []"
    by (simp_all add: sim_boot_def)
  note t = self_test_twice_same_content [OF c refl fresh(1) passed1 refl fresh(2) carried passed2]
  from t c passed1 passed2 carried show ?thesis
    by blast
qed

text \<open>
  C7. In every run, look at the first read (the read after the erase). Whether the program
  fails at this step depends on the status alone: a nonzero status parks the program in
  the failure state with the message of the read check, and nothing but the LED write
  follows the read in the log; with a zero status the next call is the write, whatever
  bytes the read delivered, and the hex dump of those bytes is on the console.
\<close>

theorem read_after_erase_checks_status_only:
  assumes "s = final (main fuel p s0)" and "calls s0 = []"
    and "first_read (calls s) = Some (buf, st, rest)"
  shows "(st \<noteq> 0 \<longleftrightarrow> rest = [Gpio_write CYBSP_LED_STATE_ON])
     \<and> (st \<noteq> 0 \<longrightarrow>
            (\<forall>n. main n p s0 = Running s) \<and> led s = CYBSP_LED_STATE_ON
            \<and> (\<exists>before. s = status_failure ''Reading memory failed'' st before))
     \<and> (st = 0 \<longrightarrow>
            (\<exists>addr len bytes st' rest'. rest = Qspi_write addr len bytes st' # rest')
            \<and> sublist (print_array_text ''Received Data'' buf PACKET_SIZE) (console s))"
proof (cases rule: main_cases [of p s0])
  case (idle r0 h0 h1 S T h2 d3 h3 rx1 h4 d5 h5 sb)
  with assms show ?thesis
    using final_idle_loop [OF refl, of fuel sb]
    by (auto simp del: sublist_code)
qed (use assms in \<open>auto simp del: sublist_code intro: sublist_grow\<close>)


theorem read_after_erase_checks_status_only_witness:
  "first_read (calls (final (main 0 (sim_platform 0xFF 64) (sim_boot (replicate 256 0) [0, 0, 7]))))
       = Some (replicate 64 0, 7, [Gpio_write CYBSP_LED_STATE_ON])
   \<and> (7 :: 32 word) \<noteq> 0
   \<and> led (final (main 0 (sim_platform 0xFF 64) (sim_boot (replicate 256 0) [0, 0, 7]))) = CYBSP_LED_STATE_ON
   \<and> (\<forall>n. main n (sim_platform 0xFF 64) (sim_boot (replicate 256 0) [0, 0, 7])
          = Running (final (main 0 (sim_platform 0xFF 64) (sim_boot (replicate 256 0) [0, 0, 7]))))
   \<and> first_read (calls (final (main 0 (sim_platform 0 64) (sim_boot (replicate 256 0) []))))
       = Some (replicate 64 0, 0,
           [Qspi_write 64 PACKET_SIZE pattern 0, Qspi_read 64 PACKET_SIZE pattern 0,
            Qspi_enable_xip True])
   \<and> replicate 64 (0 :: 8 word) \<noteq> replicate 64 0xFF
   \<and> sublist (print_array_text ''Received Data'' (replicate 64 0) PACKET_SIZE)
         (console (final (main 0 (sim_platform 0 64) (sim_boot (replicate 256 0) []))))"
proof -
  let ?p = "sim_platform 0xFF 64"
  let ?b = "sim_boot (replicate 256 0) [0, 0, 7]"
  let ?s = "final (main 0 ?p ?b)"
  obtain sb where run: "\<forall>fuel. main fuel ?p ?b = Running (status_failure ''Reading memory failed'' 7 sb)"
    and cs: "calls sb = [Cybsp_init 0, Enable_irq, Retarget_io_init, Gpio_init CYBSP_LED_STATE_OFF,
          Qspi_init 0, Qspi_get_erase_size 0 64, Qspi_get_size 256, Qspi_erase 64 64 0,
          Qspi_read 64 PACKET_SIZE (replicate 64 0) 7]"
    using sim_run_first_read_fault by blast
  have r1: "first_read (calls ?s) = Some (replicate 64 0, 7, [Gpio_write CYBSP_LED_STATE_ON])"
    by (simp add: run cs)
  have fresh: "calls ?b = []"
    by (simp add: sim_boot_def)
  note t1 = read_after_erase_checks_status_only [OF refl fresh r1]
  let ?p' = "sim_platform 0 64"
  let ?b' = "sim_boot (replicate 256 0) []"
  let ?s' = "final (main 0 ?p' ?b')"
  obtain sb' where run': "\<forall>fuel. main fuel ?p' ?b' = idle_loop fuel sb'"
    and cs': "calls sb' = [Cybsp_init 0, Enable_irq, Retarget_io_init, Gpio_init CYBSP_LED_STATE_OFF,
          Qspi_init 0, Qspi_get_erase_size 0 64, Qspi_get_size 256, Qspi_erase 64 64 0,
          Qspi_read 64 PACKET_SIZE (replicate 64 0) 0,
          Qspi_write 64 PACKET_SIZE pattern 0,
          Qspi_read 64 PACKET_SIZE pattern 0,
          Qspi_enable_xip True]"
    using sim_run_passes [of "replicate 256 0" "0"] by auto
  have r2: "first_read (calls ?s') = Some (replicate 64 0, 0,
           [Qspi_write 64 PACKET_SIZE pattern 0, Qspi_read 64 PACKET_SIZE pattern 0,
            Qspi_enable_xip True])"
    by (simp add: run' cs')
  have fresh': "calls ?b' = []"
    by (simp add: sim_boot_def)
  note t2 = read_after_erase_checks_status_only [OF refl fresh' r2]
  have nonzero: "(7 :: 32 word) \<noteq> 0"
    by simp
  have "replicate 64 (0 :: 8 word) ! 0 \<noteq> replicate 64 0xFF ! 0"
    by simp
  then have other: "replicate 64 (0 :: 8 word) \<noteq> replicate 64 0xFF"
    by metis
  from t1 t2 r1 r2 nonzero other show ?thesis
    by blast
qed

text \<open>
  C8. For every buffer holding at least \<open>size\<close> bytes, the hex dump appends to the
  console the heading and then, for each index below \<open>size\<close> in order, the byte as
  \<^verbatim>\<open>0x\<close> followed by two upper-case hexadecimal digits and a space, with a newline
  after every sixteenth byte. It touches nothing but the console.
\<close>

theorem print_array_hex_dump:
  "unat sz \<le> length buf \<Longrightarrow>
     console (print_array message buf sz s) = console s @ print_array_text message buf sz
     \<and> hw (print_array message buf sz s) = hw s
     \<and> led (print_array message buf sz s) = led s
     \<and> calls (print_array message buf sz s) = calls s"
  by simp


theorem print_array_hex_dump_witness:
  "unat (17 :: 32 word) \<le> length (replicate 17 (0xAB :: 8 word))
   \<and> console (print_array ''Received Data'' (replicate 17 0xAB) 17 (sim_boot [] []))
       = ''\<newline>Received Data (17 bytes):\<newline>-------------------------\<newline>''
         @ ''0xAB 0xAB 0xAB 0xAB 0xAB 0xAB 0xAB 0xAB 0xAB 0xAB 0xAB 0xAB 0xAB 0xAB 0xAB 0xAB \<newline>''
         @ ''0xAB ''"
proof -
  have fits: "unat (17 :: 32 word) \<le> length (replicate 17 (0xAB :: 8 word))"
    by simp
  have dump: "print_array_text ''Received Data'' (replicate 17 0xAB) 17
      = ''\<newline>Received Data (17 bytes):\<newline>-------------------------\<newline>''
         @ ''0xAB 0xAB 0xAB 0xAB 0xAB 0xAB 0xAB 0xAB 0xAB 0xAB 0xAB 0xAB 0xAB 0xAB 0xAB 0xAB \<newline>''
         @ ''0xAB ''"
    by code_simp
  have empty: "console (sim_boot [] []) = []"
    by (simp add: sim_boot_def)
  from print_array_hex_dump [OF fits, of "''Received Data''" "sim_boot [] []"] fits
  show ?thesis
    by (simp only: dump empty append_Nil simp_thms)
qed

text \<open>
  C9. The placement check compares against the base address only: every address at or
  above the base passes, in particular every address at or beyond the end of a mapped
  window of any size that starts at the base, and the highest address there is.
\<close>

theorem check_address_no_upper_bound:
  "(baseAddress p \<le> addr \<longrightarrow> check_address fuel p message addr s = Returned s)
   \<and> (\<forall>window :: 32 word. unat (baseAddress p) + unat window \<le> unat addr \<longrightarrow>
         check_address fuel p message addr s = Returned s)
   \<and> check_address fuel p message (- 1) s = Returned s"
  using word_order.extremum [of "baseAddress p"] by (simp add: check_address_ok word_le_nat_alt del: word_order.extremum)


theorem check_address_no_upper_bound_witness:
  "baseAddress (sim_platform 0xFF 64) \<le> 0x1C000000
   \<and> unat (baseAddress (sim_platform 0xFF 64)) + unat (0x04000000 :: 32 word) \<le> unat (0x1C000000 :: 32 word)
   \<and> check_address 0 (sim_platform 0xFF 64) ''Function not found in external memory.'' 0x1C000000
         (sim_boot [] [])
       = Returned (sim_boot [] [])"
proof -
  have above: "baseAddress (sim_platform 0xFF 64) \<le> 0x1C000000"
    by (simp add: sim_platform_def)
  have beyond: "unat (baseAddress (sim_platform 0xFF 64)) + unat (0x04000000 :: 32 word)
      \<le> unat (0x1C000000 :: 32 word)"
    by (simp add: sim_platform_def)
  note t = check_address_no_upper_bound [of "sim_platform 0xFF 64" "0x1C000000" 0
      "''Function not found in external memory.''" "sim_boot [] []"]
  from t above beyond show ?thesis
    by blast
qed

text \<open>
  C10. With a zero status the status check returns to its caller in the state it was
  called in: nothing is printed, the LED is not written, no call is logged.
\<close>

theorem check_status_zero_is_noop: "check_status fuel message 0 s = Returned s"
  by (simp add: check_status_def)


theorem check_status_zero_is_noop_witness:
  "check_status 3 ''Erasing memory failed'' 0 (sim_boot (replicate 256 0) [])
     = Returned (sim_boot (replicate 256 0) [])"
  using check_status_zero_is_noop [of 3 "''Erasing memory failed''" "sim_boot (replicate 256 0) []"] .

end
